theory Spec2Isabelle
  imports Main "HOL-Library.Char_ord" "HOL-Library.List_Lexorder"
begin

section \<open>Python values as the service receives them\<close>

text \<open>
  The five analysis bundles of a request are declared \<^verbatim>\<open>Dict[str, Any]\<close> in
  \<^verbatim>\<open>server/main.py\<close>: the validation layer checks that each is a JSON object and
  nothing about the values in it. A value is therefore any parsed JSON value. A mapping is
  an association list in insertion order (keys distinct, as in a parsed object); a
  \<^verbatim>\<open>str\<close> is the UTF-8 text of its characters.

  A Python \<^verbatim>\<open>float\<close> is a binary64 number: \<open>Fin m e\<close> stands for \<open>m * 2 ^ e\<close>,
  \<open>NZero\<close> for \<^verbatim>\<open>-0.0\<close>.
\<close>

datatype pyfloat = NaN | NInf | PInf | NZero | Fin int int

datatype json =
    JNull
  | JBool bool
  | JInt int
  | JFloat pyfloat
  | JStr string
  | JList "json list"
  | JObj "(string \<times> json) list"

datatype pyexc =
    TypeError
  | AttributeError
  | ValueError
  | OverflowError
  | HTTPException int string
  | ServiceError string

text \<open>
  What the interpreter prints for a float (\<^verbatim>\<open>repr\<close>, which never raises), what it
  prints for a list or a mapping (which raises where an item cannot be printed) and what
  \<^verbatim>\<open>//\<close> gives on a float are builtins of the language, not code of the repository:
  they are parameters of the model. So is the limit on the decimal digits of an int that
  \<^verbatim>\<open>str\<close> converts (\<^verbatim>\<open>sys.get_int_max_str_digits()\<close>): 4300 by default in
  CPython 3.11, 0 where there is no limit.
\<close>

record pyruntime =
  float_repr :: "pyfloat \<Rightarrow> string"
  container_repr :: "json \<Rightarrow> pyexc + string"
  float_floordiv :: "pyfloat \<Rightarrow> int \<Rightarrow> pyfloat"
  max_str_digits :: nat

subsection \<open>binary64 arithmetic\<close>

function nbits :: "int \<Rightarrow> int" where
  "nbits n = (if n \<le> 0 then 0 else 1 + nbits (n div 2))"
  by pat_completeness auto
termination
  by (relation "measure nat") auto

declare nbits.simps [simp del]

definition round_half_even :: "int \<Rightarrow> nat \<Rightarrow> int" where
  "round_half_even a s =
     (let q = a div 2 ^ s; r = a mod 2 ^ s
      in if 2 * r < 2 ^ s then q else if 2 ^ s < 2 * r then q + 1
         else if even q then q else q + 1)"

text \<open>
  Rounding of the exact value \<open>m * 2 ^ e\<close> to the nearest binary64 number, ties to even:
  53 bits of mantissa, the exponent not below \<open>-1074\<close>, overflow to an infinity.
\<close>

definition round_double :: "int \<Rightarrow> int \<Rightarrow> pyfloat" where
  "round_double m e =
     (if m = 0 then Fin 0 0
      else
        let a = \<bar>m\<bar>;
            t = max (nbits a + e - 53) (- 1074);
            k = (if t \<le> e then a else round_half_even a (nat (t - e)));
            x = (if t \<le> e then e else t)
        in if 1024 < nbits k + x then (if m < 0 then NInf else PInf)
           else if k = 0 then (if m < 0 then NZero else Fin 0 0)
           else Fin (if m < 0 then - k else k) x)"

fun fl_zero :: "pyfloat \<Rightarrow> bool" where
  "fl_zero NZero = True"
| "fl_zero (Fin m e) = (m = 0)"
| "fl_zero _ = False"

fun fl_neg :: "pyfloat \<Rightarrow> bool" where
  "fl_neg NInf = True"
| "fl_neg NZero = True"
| "fl_neg (Fin m e) = (m < 0)"
| "fl_neg _ = False"

fun mant :: "pyfloat \<Rightarrow> int" where
  "mant (Fin m e) = m"
| "mant _ = 0"

fun expo :: "pyfloat \<Rightarrow> int" where
  "expo (Fin m e) = e"
| "expo _ = 0"

definition fin_less :: "int \<Rightarrow> int \<Rightarrow> int \<Rightarrow> int \<Rightarrow> bool" where
  "fin_less m1 e1 m2 e2 =
     (let e = min e1 e2 in m1 * 2 ^ nat (e1 - e) < m2 * 2 ^ nat (e2 - e))"

definition fin_eq :: "int \<Rightarrow> int \<Rightarrow> int \<Rightarrow> int \<Rightarrow> bool" where
  "fin_eq m1 e1 m2 e2 =
     (let e = min e1 e2 in m1 * 2 ^ nat (e1 - e) = m2 * 2 ^ nat (e2 - e))"

text \<open>Comparison of two numbers is exact; every comparison with a NaN is false.\<close>

fun fl_less :: "pyfloat \<Rightarrow> pyfloat \<Rightarrow> bool" where
  "fl_less NaN y = False"
| "fl_less x NaN = False"
| "fl_less x NInf = False"
| "fl_less NInf y = True"
| "fl_less PInf y = False"
| "fl_less x PInf = True"
| "fl_less x y = fin_less (mant x) (expo x) (mant y) (expo y)"

fun fl_eq :: "pyfloat \<Rightarrow> pyfloat \<Rightarrow> bool" where
  "fl_eq NaN y = False"
| "fl_eq x NaN = False"
| "fl_eq NInf y = (y = NInf)"
| "fl_eq x NInf = False"
| "fl_eq PInf y = (y = PInf)"
| "fl_eq x PInf = False"
| "fl_eq x y = fin_eq (mant x) (expo x) (mant y) (expo y)"

fun fl_add :: "pyfloat \<Rightarrow> pyfloat \<Rightarrow> pyfloat" where
  "fl_add NaN y = NaN"
| "fl_add x NaN = NaN"
| "fl_add PInf NInf = NaN"
| "fl_add NInf PInf = NaN"
| "fl_add PInf y = PInf"
| "fl_add x PInf = PInf"
| "fl_add NInf y = NInf"
| "fl_add x NInf = NInf"
| "fl_add NZero NZero = NZero"
| "fl_add x y =
     (let e = min (expo x) (expo y)
      in round_double (mant x * 2 ^ nat (expo x - e) + mant y * 2 ^ nat (expo y - e)) e)"

definition fl_inf :: "pyfloat \<Rightarrow> bool" where
  "fl_inf x = (x = PInf \<or> x = NInf)"

definition fl_mul :: "pyfloat \<Rightarrow> pyfloat \<Rightarrow> pyfloat" where
  "fl_mul x y =
     (if x = NaN \<or> y = NaN then NaN
      else if (fl_inf x \<and> fl_zero y) \<or> (fl_zero x \<and> fl_inf y) then NaN
      else if fl_inf x \<or> fl_inf y then (if fl_neg x = fl_neg y then PInf else NInf)
      else if fl_zero x \<or> fl_zero y then (if fl_neg x = fl_neg y then Fin 0 0 else NZero)
      else round_double (mant x * mant y) (expo x + expo y))"

text \<open>The literals \<^verbatim>\<open>0.4\<close>, \<^verbatim>\<open>0.5\<close> and \<^verbatim>\<open>0.3\<close> as binary64 numbers.\<close>

definition c_0_4 :: pyfloat where "c_0_4 = Fin 3602879701896397 (- 53)"
definition c_0_5 :: pyfloat where "c_0_5 = Fin 1 (- 1)"
definition c_0_3 :: pyfloat where "c_0_3 = Fin 5404319552844595 (- 54)"

text \<open>\<^verbatim>\<open>float(n)\<close> for an int: correctly rounded, OverflowError beyond the float range.\<close>

definition int_to_float :: "int \<Rightarrow> pyexc + pyfloat" where
  "int_to_float n =
     (let f = round_double n 0 in if fl_inf f then Inl OverflowError else Inr f)"

subsection \<open>Operators on values\<close>

text \<open>\<^verbatim>\<open>bool\<close> is a subclass of \<^verbatim>\<open>int\<close>: \<^verbatim>\<open>True\<close> counts as 1.\<close>

fun int_of :: "json \<Rightarrow> int option" where
  "int_of (JBool b) = Some (if b then 1 else 0)"
| "int_of (JInt n) = Some n"
| "int_of _ = None"

fun num_of :: "json \<Rightarrow> pyfloat option" where
  "num_of (JBool b) = Some (Fin (if b then 1 else 0) 0)"
| "num_of (JInt n) = Some (Fin n 0)"
| "num_of (JFloat f) = Some f"
| "num_of _ = None"

fun py_truthy :: "json \<Rightarrow> bool" where
  "py_truthy JNull = False"
| "py_truthy (JBool b) = b"
| "py_truthy (JInt n) = (n \<noteq> 0)"
| "py_truthy (JFloat f) = (\<not> fl_zero f)"
| "py_truthy (JStr s) = (s \<noteq> [])"
| "py_truthy (JList xs) = (xs \<noteq> [])"
| "py_truthy (JObj kvs) = (kvs \<noteq> [])"

text \<open>
  \<^verbatim>\<open>==\<close> never raises. Numbers compare by value across bool, int and float, lists
  elementwise, mappings key by key whatever the order. Two values are never the same
  object here: the shortcut that containers take for identical elements is not modelled.
\<close>

fun py_eq :: "json \<Rightarrow> json \<Rightarrow> bool"
  and py_eq_list :: "json list \<Rightarrow> json list \<Rightarrow> bool"
  and py_eq_items :: "(string \<times> json) list \<Rightarrow> (string \<times> json) list \<Rightarrow> bool" where
  "py_eq JNull w = (w = JNull)"
| "py_eq (JStr s) w = (w = JStr s)"
| "py_eq (JBool b) w =
     (case num_of w of None \<Rightarrow> False | Some y \<Rightarrow> fl_eq (Fin (if b then 1 else 0) 0) y)"
| "py_eq (JInt n) w = (case num_of w of None \<Rightarrow> False | Some y \<Rightarrow> fl_eq (Fin n 0) y)"
| "py_eq (JFloat f) w = (case num_of w of None \<Rightarrow> False | Some y \<Rightarrow> fl_eq f y)"
| "py_eq (JList xs) w = (case w of JList ys \<Rightarrow> py_eq_list xs ys | _ \<Rightarrow> False)"
| "py_eq (JObj a) w =
     (case w of JObj b \<Rightarrow> length a = length b \<and> py_eq_items a b | _ \<Rightarrow> False)"
| "py_eq_list [] ys = (ys = [])"
| "py_eq_list (x # xs) ys =
     (case ys of [] \<Rightarrow> False | y # ys' \<Rightarrow> py_eq x y \<and> py_eq_list xs ys')"
| "py_eq_items [] b = True"
| "py_eq_items (kv # a) b =
     (case map_of b (fst kv) of None \<Rightarrow> False
      | Some w \<Rightarrow> py_eq (snd kv) w \<and> py_eq_items a b)"

text \<open>
  \<^verbatim>\<open>v > w\<close>: numbers by value, strings and lists lexicographically (a list by its first
  pair of unequal elements), TypeError for every other pair of types.
\<close>

fun py_gt :: "json \<Rightarrow> json \<Rightarrow> pyexc + bool"
  and py_gt_list :: "json list \<Rightarrow> json list \<Rightarrow> pyexc + bool" where
  "py_gt (JList xs) w = (case w of JList ys \<Rightarrow> py_gt_list xs ys | _ \<Rightarrow> Inl TypeError)"
| "py_gt (JStr s) w = (case w of JStr t \<Rightarrow> Inr (t < s) | _ \<Rightarrow> Inl TypeError)"
| "py_gt JNull w = Inl TypeError"
| "py_gt (JObj a) w = Inl TypeError"
| "py_gt (JBool b) w =
     (case num_of w of None \<Rightarrow> Inl TypeError
      | Some y \<Rightarrow> Inr (fl_less y (Fin (if b then 1 else 0) 0)))"
| "py_gt (JInt n) w =
     (case num_of w of None \<Rightarrow> Inl TypeError | Some y \<Rightarrow> Inr (fl_less y (Fin n 0)))"
| "py_gt (JFloat f) w =
     (case num_of w of None \<Rightarrow> Inl TypeError | Some y \<Rightarrow> Inr (fl_less y f))"
| "py_gt_list [] ys = Inr False"
| "py_gt_list (x # xs) ys =
     (case ys of [] \<Rightarrow> Inr True
      | y # ys' \<Rightarrow> if py_eq x y then py_gt_list xs ys' else py_gt x y)"

definition py_lt :: "json \<Rightarrow> json \<Rightarrow> pyexc + bool" where
  "py_lt v w = py_gt w v"

text \<open>\<^verbatim>\<open>v + w\<close> as \<^verbatim>\<open>sum\<close> uses it: int arithmetic is exact, a float operand makes
  the other one a float first.\<close>

definition py_add :: "json \<Rightarrow> json \<Rightarrow> pyexc + json" where
  "py_add v w =
     (case (int_of v, int_of w) of
        (Some a, Some b) \<Rightarrow> Inr (JInt (a + b))
      | (Some a, None) \<Rightarrow>
          (case w of
             JFloat g \<Rightarrow>
               (case int_to_float a of Inl ex \<Rightarrow> Inl ex | Inr f \<Rightarrow> Inr (JFloat (fl_add f g)))
           | _ \<Rightarrow> Inl TypeError)
      | (None, Some b) \<Rightarrow>
          (case v of
             JFloat f \<Rightarrow>
               (case int_to_float b of Inl ex \<Rightarrow> Inl ex | Inr g \<Rightarrow> Inr (JFloat (fl_add f g)))
           | _ \<Rightarrow> Inl TypeError)
      | (None, None) \<Rightarrow>
          (case (v, w) of
             (JFloat f, JFloat g) \<Rightarrow> Inr (JFloat (fl_add f g))
           | _ \<Rightarrow> Inl TypeError))"

text \<open>\<^verbatim>\<open>sum(values)\<close>: the additions from left to right, starting from the int 0.\<close>

fun py_sum_from :: "json \<Rightarrow> json list \<Rightarrow> pyexc + json" where
  "py_sum_from acc [] = Inr acc"
| "py_sum_from acc (v # vs) =
     (case py_add acc v of Inl ex \<Rightarrow> Inl ex | Inr acc' \<Rightarrow> py_sum_from acc' vs)"

definition py_sum :: "json list \<Rightarrow> pyexc + json" where
  "py_sum vs = py_sum_from (JInt 0) vs"

text \<open>\<^verbatim>\<open>v * c\<close> for a float literal \<open>c\<close>.\<close>

definition py_mul_float :: "json \<Rightarrow> pyfloat \<Rightarrow> pyexc + json" where
  "py_mul_float v c =
     (case v of
        JFloat f \<Rightarrow> Inr (JFloat (fl_mul f c))
      | _ \<Rightarrow>
          (case int_of v of
             None \<Rightarrow> Inl TypeError
           | Some a \<Rightarrow>
               (case int_to_float a of
                  Inl ex \<Rightarrow> Inl ex
                | Inr f \<Rightarrow> Inr (JFloat (fl_mul f c)))))"

text \<open>\<^verbatim>\<open>v // 365\<close>.\<close>

definition py_floordiv :: "pyruntime \<Rightarrow> json \<Rightarrow> int \<Rightarrow> pyexc + json" where
  "py_floordiv rt v d =
     (case v of
        JFloat f \<Rightarrow> Inr (JFloat (float_floordiv rt f d))
      | _ \<Rightarrow> (case int_of v of None \<Rightarrow> Inl TypeError | Some a \<Rightarrow> Inr (JInt (a div d))))"

subsection \<open>Text\<close>

function str_of_nat :: "nat \<Rightarrow> string" where
  "str_of_nat n =
     (if n < 10 then [''0123456789'' ! n]
      else str_of_nat (n div 10) @ [''0123456789'' ! (n mod 10)])"
  by pat_completeness auto
termination
  by (relation "measure id") auto

declare str_of_nat.simps [simp del]

definition str_of_int :: "int \<Rightarrow> string" where
  "str_of_int i = (if i < 0 then CHR ''-'' # str_of_nat (nat (- i)) else str_of_nat (nat i))"

text \<open>
  \<^verbatim>\<open>str(i)\<close> for an int: ValueError when the text is longer than 640 characters and has
  more digits than the limit, if there is one.
\<close>

definition int_text :: "pyruntime \<Rightarrow> int \<Rightarrow> pyexc + string" where
  "int_text rt i =
     (if 0 < max_str_digits rt \<and> 640 < length (str_of_int i) \<and>
         max_str_digits rt < length (str_of_nat (nat \<bar>i\<bar>))
      then Inl ValueError
      else Inr (str_of_int i))"

text \<open>\<^verbatim>\<open>str(v)\<close>, which is what an f-string field without a format prints.\<close>

definition py_str :: "pyruntime \<Rightarrow> json \<Rightarrow> pyexc + string" where
  "py_str rt v =
     (case v of
        JNull \<Rightarrow> Inr ''None''
      | JBool b \<Rightarrow> Inr (if b then ''True'' else ''False'')
      | JInt n \<Rightarrow> int_text rt n
      | JFloat f \<Rightarrow> Inr (float_repr rt f)
      | JStr s \<Rightarrow> Inr s
      | _ \<Rightarrow> container_repr rt v)"

text \<open>\<^verbatim>\<open>d.get(k, default)\<close> on a mapping.\<close>

definition dict_get :: "(string \<times> json) list \<Rightarrow> string \<Rightarrow> json \<Rightarrow> json" where
  "dict_get d k dflt = (case map_of d k of None \<Rightarrow> dflt | Some v \<Rightarrow> v)"

section \<open>The request, as \<^verbatim>\<open>server/main.py\<close> declares it\<close>

record GitHubUserData =
  login :: string
  name :: "string option"
  bio :: "string option"
  public_repos :: int
  followers :: int
  following :: int
  created_at :: string
  avatar_url :: string

record GitHubRepo =
  name :: string
  description :: "string option"
  language :: "string option"
  stargazers_count :: int
  forks_count :: int
  created_at :: string
  updated_at :: string

record GitHubCommit =
  message :: string
  date :: string

record UserAnalysis =
  commitPatterns :: "(string \<times> json) list"
  emojiUsage :: "(string \<times> json) list"
  commitLanguage :: "(string \<times> json) list"
  repoAnalysis :: "(string \<times> json) list"
  userStats :: "(string \<times> json) list"

record RoastRequest =
  user :: GitHubUserData
  repos :: "GitHubRepo list"
  commits :: "GitHubCommit list"
  analysis :: UserAnalysis

section \<open>\<^verbatim>\<open>generate_fallback_roasts\<close>\<close>

text \<open>The string literals, byte for byte as the source file has them.\<close>

definition new_account_roast :: "string \<Rightarrow> string" where
  "new_account_roast login_name =
     ''Welcome to GitHub, '' @ login_name @
     ''! Still figuring out what a commit is, I see. '' @
     [CHR 0xEF, CHR 0xA3, CHR 0xBF, CHR 0xC3, CHR 0xBC, CHR 0xC3, CHR 0xAA, CHR 0xC2, CHR 0xA3]"

definition veteran_roast :: "string \<Rightarrow> string" where
  "veteran_roast years =
     ''Been here '' @ years @ '' years and still haven'' @ [CHR 0x27] @
     ''t learned to write decent commit messages? Classic! '' @
     [CHR 0xEF, CHR 0xA3, CHR 0xBF, CHR 0xC3, CHR 0xBC, CHR 0xC3, CHR 0xAB, CHR 0xC2, CHR 0xA5]"

definition night_owl_roast :: "string" where
  "night_owl_roast =
     ''I see you'' @ [CHR 0x27] @ ''re a fellow member of the '' @ [CHR 0x27] @
     ''3 AM commit club'' @ [CHR 0x27] @ ''. Sleep is overrated anyway! '' @
     [CHR 0xEF, CHR 0xA3, CHR 0xBF, CHR 0xC3, CHR 0xBC, CHR 0xC2, CHR 0xB6, CHR 0xC3, CHR 0xA2]"

definition emoji_overuse_roast :: "string" where
  "emoji_overuse_roast =
     ''Your commits have more emojis than a teenager'' @ [CHR 0x27] @
     ''s text messages. Very professional! '' @
     [CHR 0xEF, CHR 0xA3, CHR 0xBF, CHR 0xC3, CHR 0xBC, CHR 0xC3, CHR 0xA9, CHR 0xE2, CHR 0x89, CHR 0xA0]"

definition emoji_drought_roast :: "string" where
  "emoji_drought_roast =
     ''Zero emojis in your commits? What are you, a robot? Even robots use '' @
     ''emojis now! '' @
     [CHR 0xEF, CHR 0xA3, CHR 0xBF, CHR 0xC3, CHR 0xBC, CHR 0xC2, CHR 0xA7, CHR 0xC3, CHR 0xB1]"

definition abandoned_repos_roast :: "string \<Rightarrow> string" where
  "abandoned_repos_roast n =
     ''You have '' @ n @ '' abandoned repos. GitHub isn'' @ [CHR 0x27] @
     ''t a graveyard for your coding dreams! '' @
     [CHR 0xE2, CHR 0x80, CHR 0x9A, CHR 0xC3, CHR 0xB6, CHR 0xE2, CHR 0x88, CHR 0x9E, CHR 0xC3, CHR 0x94, CHR 0xE2, CHR 0x88, CHR 0x8F, CHR 0xC3, CHR 0xA8]"

definition follow_ratio_roast :: "string" where
  "follow_ratio_roast =
     ''Following more people than follow you back? That'' @ [CHR 0x27] @
     ''s the developer equivalent of unrequited love! '' @
     [CHR 0xEF, CHR 0xA3, CHR 0xBF, CHR 0xC3, CHR 0xBC, CHR 0xC3, CHR 0xAD, CHR 0xC3, CHR 0xAE]"

definition generic_roast_1 :: "string" where
  "generic_roast_1 =
     ''Your code commits tell a story... mostly about debugging at 2 AM! '' @
     [CHR 0xEF, CHR 0xA3, CHR 0xBF, CHR 0xC3, CHR 0xBC, CHR 0xC3, CHR 0xAC, CHR 0xC3, CHR 0xB6]"

definition generic_roast_2 :: "string" where
  "generic_roast_2 =
     ''I'' @ [CHR 0x27] @
     ''ve seen more organization in a tornado than in your repository structure! '' @
     [CHR 0xEF, CHR 0xA3, CHR 0xBF, CHR 0xC3, CHR 0xBC, CHR 0xC3, CHR 0xA5, CHR 0xE2, CHR 0x84, CHR 0xA2, CHR 0xC3, CHR 0x94, CHR 0xE2, CHR 0x88, CHR 0x8F, CHR 0xC3, CHR 0xA8]"

definition generic_roast_3 :: "string" where
  "generic_roast_3 =
     ''Your commit messages are like modern art - nobody understands them, '' @
     ''but everyone pretends they do! '' @
     [CHR 0xEF, CHR 0xA3, CHR 0xBF, CHR 0xC3, CHR 0xBC, CHR 0xC3, CHR 0xA9, CHR 0xC2, CHR 0xAE]"

definition highly_message :: "string" where
  "highly_message =
     ''This developer is a goldmine for roasts! '' @
     [CHR 0xEF, CHR 0xA3, CHR 0xBF, CHR 0xC3, CHR 0xBC, CHR 0xC3, CHR 0xAE, CHR 0xE2, CHR 0x80, CHR 0xA2]"

definition moderately_message :: "string" where
  "moderately_message =
     ''Some good roast material here. '' @
     [CHR 0xEF, CHR 0xA3, CHR 0xBF, CHR 0xC3, CHR 0xBC, CHR 0xC3, CHR 0xB2, CHR 0xC3, CHR 0xA8]"

definition minimally_message :: "string" where
  "minimally_message =
     ''This developer is suspiciously well-behaved... '' @
     [CHR 0xEF, CHR 0xA3, CHR 0xBF, CHR 0xC3, CHR 0xBC, CHR 0xC2, CHR 0xA7, CHR 0xC3, CHR 0xAE]"

definition suggestion_1 :: "string" where
  "suggestion_1 =
     ''Try committing at 3 AM for bonus roast points!''"

definition suggestion_2 :: "string" where
  "suggestion_2 =
     ''Add more emojis to your commit messages!''"

definition suggestion_3 :: "string" where
  "suggestion_3 =
     ''Create a repo called '' @ [CHR 0x27] @ ''my-awesome-project'' @ [CHR 0x27] @
     '' and abandon it!''"

definition suggestion_4 :: "string" where
  "suggestion_4 =
     ''Write commit messages like '' @ [CHR 0x27] @ ''fix stuff'' @ [CHR 0x27] @ '' and '' @
     [CHR 0x27] @ ''idk anymore'' @ [CHR 0x27] @ ''!''"


text \<open>
  The function threads the list \<^verbatim>\<open>roasts\<close> through its blocks; each block below is one
  of them, takes the list and returns it extended, or raises.
\<close>

definition account_age_roasts ::
  "pyruntime \<Rightarrow> RoastRequest \<Rightarrow> string list \<Rightarrow> pyexc + string list" where
  "account_age_roasts rt request roasts =
     (let account_age = dict_get (userStats (analysis request)) ''accountAge'' (JInt 0)
      in case py_lt account_age (JInt 365) of
           Inl ex \<Rightarrow> Inl ex
         | Inr True \<Rightarrow> Inr (roasts @ [new_account_roast (login (user request))])
         | Inr False \<Rightarrow>
             (case py_gt account_age (JInt 3650) of
                Inl ex \<Rightarrow> Inl ex
              | Inr True \<Rightarrow>
                  (case py_floordiv rt account_age 365 of
                     Inl ex \<Rightarrow> Inl ex
                   | Inr years \<Rightarrow>
                       (case py_str rt years of
                          Inl ex \<Rightarrow> Inl ex
                        | Inr years_text \<Rightarrow> Inr (roasts @ [veteran_roast years_text])))
              | Inr False \<Rightarrow> Inr roasts))"

text \<open>
  \<^verbatim>\<open>commit_times.get('night', 0) > sum(commit_times.values()) * c\<close>, which both rule
  engines evaluate, with \<open>c = 0.4\<close> and \<open>c = 0.5\<close>. The operands are evaluated from left to
  right: the attribute \<^verbatim>\<open>get\<close> exists on a mapping only.
\<close>

definition night_share_exceeds :: "pyfloat \<Rightarrow> UserAnalysis \<Rightarrow> pyexc + bool" where
  "night_share_exceeds c a =
     (case dict_get (commitPatterns a) ''timeOfDay'' (JObj []) of
        JObj commit_times \<Rightarrow>
          (let night = dict_get commit_times ''night'' (JInt 0)
           in case py_sum (map snd commit_times) of
                Inl ex \<Rightarrow> Inl ex
              | Inr tot \<Rightarrow>
                  (case py_mul_float tot c of
                     Inl ex \<Rightarrow> Inl ex
                   | Inr bound \<Rightarrow> py_gt night bound))
      | _ \<Rightarrow> Inl AttributeError)"

definition commit_pattern_roasts :: "RoastRequest \<Rightarrow> string list \<Rightarrow> pyexc + string list" where
  "commit_pattern_roasts request roasts =
     (case night_share_exceeds c_0_4 (analysis request) of
        Inl ex \<Rightarrow> Inl ex
      | Inr fires \<Rightarrow> Inr (if fires then roasts @ [night_owl_roast] else roasts))"

definition emoji_roasts :: "RoastRequest \<Rightarrow> string list \<Rightarrow> pyexc + string list" where
  "emoji_roasts request roasts =
     (let emoji_count = dict_get (emojiUsage (analysis request)) ''count'' (JInt 0)
      in case py_gt emoji_count (JInt 10) of
           Inl ex \<Rightarrow> Inl ex
         | Inr True \<Rightarrow> Inr (roasts @ [emoji_overuse_roast])
         | Inr False \<Rightarrow>
             Inr (if py_eq emoji_count (JInt 0) then roasts @ [emoji_drought_roast]
                  else roasts))"

definition repository_roasts ::
  "pyruntime \<Rightarrow> RoastRequest \<Rightarrow> string list \<Rightarrow> pyexc + string list" where
  "repository_roasts rt request roasts =
     (let abandoned_repos = dict_get (repoAnalysis (analysis request)) ''abandonedRepos'' (JInt 0)
      in case py_gt abandoned_repos (JInt 0) of
           Inl ex \<Rightarrow> Inl ex
         | Inr True \<Rightarrow>
             (case py_str rt abandoned_repos of
                Inl ex \<Rightarrow> Inl ex
              | Inr count_text \<Rightarrow> Inr (roasts @ [abandoned_repos_roast count_text]))
         | Inr False \<Rightarrow> Inr roasts)"

definition follow_ratio_roasts :: "RoastRequest \<Rightarrow> string list \<Rightarrow> pyexc + string list" where
  "follow_ratio_roasts request roasts =
     (let follow_ratio = dict_get (userStats (analysis request)) ''followRatio'' (JInt 0)
      in case py_lt follow_ratio (JFloat c_0_5) of
           Inl ex \<Rightarrow> Inl ex
         | Inr fires \<Rightarrow> Inr (if fires then roasts @ [follow_ratio_roast] else roasts))"

definition generic_roasts :: "string list \<Rightarrow> string list" where
  "generic_roasts roasts =
     (if length roasts < 3 then roasts @ [generic_roast_1, generic_roast_2, generic_roast_3]
      else roasts)"

text \<open>The roasts of the five rule blocks, before the generic ones and the cut to six.\<close>

definition rule_roasts :: "pyruntime \<Rightarrow> RoastRequest \<Rightarrow> pyexc + string list" where
  "rule_roasts rt request =
     (case account_age_roasts rt request [] of
        Inl ex \<Rightarrow> Inl ex
      | Inr r1 \<Rightarrow>
     (case commit_pattern_roasts request r1 of
        Inl ex \<Rightarrow> Inl ex
      | Inr r2 \<Rightarrow>
     (case emoji_roasts request r2 of
        Inl ex \<Rightarrow> Inl ex
      | Inr r3 \<Rightarrow>
     (case repository_roasts rt request r3 of
        Inl ex \<Rightarrow> Inl ex
      | Inr r4 \<Rightarrow> follow_ratio_roasts request r4))))"

definition generate_fallback_roasts :: "pyruntime \<Rightarrow> RoastRequest \<Rightarrow> pyexc + string list" where
  "generate_fallback_roasts rt request =
     (case rule_roasts rt request of
        Inl ex \<Rightarrow> Inl ex
      | Inr roasts \<Rightarrow> Inr (take 6 (generic_roasts roasts)))"

section \<open>\<^verbatim>\<open>analyze_roast_potential\<close>\<close>

record RoastPotential =
  roast_score :: int
  roastability_level :: string
  message :: string
  roast_factors :: "string list"
  suggestions :: "string list"

text \<open>The pair of \<^verbatim>\<open>roast_score\<close> and \<^verbatim>\<open>roast_factors\<close>, which the rules update together.\<close>

type_synonym tally = "int \<times> string list"

definition add_factor :: "int \<Rightarrow> string \<Rightarrow> tally \<Rightarrow> tally" where
  "add_factor w tag t = (fst t + w, snd t @ [tag])"

definition questionable_factor :: "UserAnalysis \<Rightarrow> tally \<Rightarrow> tally" where
  "questionable_factor a t =
     (if py_truthy (dict_get (commitLanguage a) ''questionableMessages'' (JList []))
      then add_factor 20 ''questionable_commits'' t else t)"

definition emoji_factor :: "UserAnalysis \<Rightarrow> tally \<Rightarrow> pyexc + tally" where
  "emoji_factor a t =
     (case py_gt (dict_get (emojiUsage a) ''count'' (JInt 0)) (JInt 15) of
        Inl ex \<Rightarrow> Inl ex
      | Inr True \<Rightarrow> Inr (add_factor 15 ''emoji_overuse'' t)
      | Inr False \<Rightarrow>
          Inr (if py_eq (dict_get (emojiUsage a) ''count'' (JInt 0)) (JInt 0)
               then add_factor 10 ''emoji_drought'' t else t))"

definition abandonment_factor :: "UserAnalysis \<Rightarrow> tally \<Rightarrow> pyexc + tally" where
  "abandonment_factor a t =
     (case py_gt (dict_get (repoAnalysis a) ''abandonedRepos'' (JInt 0)) (JInt 2) of
        Inl ex \<Rightarrow> Inl ex
      | Inr fires \<Rightarrow> Inr (if fires then add_factor 25 ''repo_abandonment'' t else t))"

definition social_factor :: "UserAnalysis \<Rightarrow> tally \<Rightarrow> pyexc + tally" where
  "social_factor a t =
     (case py_lt (dict_get (userStats a) ''followRatio'' (JInt 1)) (JFloat c_0_3) of
        Inl ex \<Rightarrow> Inl ex
      | Inr fires \<Rightarrow> Inr (if fires then add_factor 15 ''social_awkwardness'' t else t))"

definition night_owl_factor :: "UserAnalysis \<Rightarrow> tally \<Rightarrow> pyexc + tally" where
  "night_owl_factor a t =
     (case night_share_exceeds c_0_5 a of
        Inl ex \<Rightarrow> Inl ex
      | Inr fires \<Rightarrow> Inr (if fires then add_factor 20 ''night_owl_coding'' t else t))"

definition lazy_factor :: "UserAnalysis \<Rightarrow> tally \<Rightarrow> pyexc + tally" where
  "lazy_factor a t =
     (case py_lt (dict_get (commitLanguage a) ''averageLength'' (JInt 0)) (JInt 10) of
        Inl ex \<Rightarrow> Inl ex
      | Inr fires \<Rightarrow> Inr (if fires then add_factor 10 ''lazy_commit_messages'' t else t))"

definition roast_tally :: "UserAnalysis \<Rightarrow> pyexc + tally" where
  "roast_tally a =
     (case emoji_factor a (questionable_factor a (0, [])) of
        Inl ex \<Rightarrow> Inl ex
      | Inr t2 \<Rightarrow>
     (case abandonment_factor a t2 of
        Inl ex \<Rightarrow> Inl ex
      | Inr t3 \<Rightarrow>
     (case social_factor a t3 of
        Inl ex \<Rightarrow> Inl ex
      | Inr t4 \<Rightarrow>
     (case night_owl_factor a t4 of
        Inl ex \<Rightarrow> Inl ex
      | Inr t5 \<Rightarrow> lazy_factor a t5))))"

definition level_of :: "int \<Rightarrow> string" where
  "level_of s =
     (if 60 \<le> s then ''highly_roastable''
      else if 30 \<le> s then ''moderately_roastable''
      else ''minimally_roastable'')"

definition message_of :: "int \<Rightarrow> string" where
  "message_of s =
     (if 60 \<le> s then highly_message
      else if 30 \<le> s then moderately_message
      else minimally_message)"

definition analyze_roast_potential :: "RoastRequest \<Rightarrow> pyexc + RoastPotential" where
  "analyze_roast_potential request =
     (case roast_tally (analysis request) of
        Inl ex \<Rightarrow> Inl ex
      | Inr t \<Rightarrow>
          Inr \<lparr>roast_score = fst t,
               roastability_level = level_of (fst t),
               message = message_of (fst t),
               roast_factors = snd t,
               suggestions = [suggestion_1, suggestion_2, suggestion_3, suggestion_4]\<rparr>)"

section \<open>\<^verbatim>\<open>create_roast_prompt\<close>\<close>

definition nl :: string where
  "nl = [CHR 0x0A]"

text \<open>\<^verbatim>\<open>sep.join(xs)\<close> on strings.\<close>

fun join :: "string \<Rightarrow> string list \<Rightarrow> string" where
  "join sep [] = []"
| "join sep [x] = x"
| "join sep (x # y # ys) = x @ sep @ join sep (y # ys)"

text \<open>
  A \<^verbatim>\<open>str\<close> is a sequence of characters, not of bytes: slicing and iterating go by
  character, each one to four bytes of the UTF-8 text.
\<close>

definition utf8_width :: "char \<Rightarrow> nat" where
  "utf8_width c =
     (let b = (of_char c :: nat)
      in if b < 0xC0 then 1 else if b < 0xE0 then 2 else if b < 0xF0 then 3 else 4)"

function str_chars :: "string \<Rightarrow> string list" where
  "str_chars [] = []"
| "str_chars (c # cs) =
     (c # take (utf8_width c - 1) cs) # str_chars (drop (utf8_width c - 1) cs)"
  by pat_completeness auto
termination
  by (relation "measure length") auto

text \<open>
  \<^verbatim>\<open>v[:n]\<close>: a list and a \<^verbatim>\<open>str\<close> can be sliced, nothing else can (a mapping
  raises TypeError up to Python 3.11 and KeyError from 3.12 on; the model has the former).
\<close>

definition py_slice :: "nat \<Rightarrow> json \<Rightarrow> pyexc + json" where
  "py_slice n v =
     (case v of
        JList xs \<Rightarrow> Inr (JList (take n xs))
      | JStr s \<Rightarrow> Inr (JStr (concat (take n (str_chars s))))
      | _ \<Rightarrow> Inl TypeError)"

text \<open>The items a loop over a list or a \<^verbatim>\<open>str\<close> sees.\<close>

definition py_items :: "json \<Rightarrow> json list" where
  "py_items v =
     (case v of JList xs \<Rightarrow> xs | JStr s \<Rightarrow> map JStr (str_chars s) | _ \<Rightarrow> [])"

text \<open>\<^verbatim>\<open>str.join\<close> takes strings only.\<close>

fun str_items :: "json list \<Rightarrow> pyexc + string list" where
  "str_items [] = Inr []"
| "str_items (v # vs) =
     (case v of
        JStr s \<Rightarrow> (case str_items vs of Inl ex \<Rightarrow> Inl ex | Inr ss \<Rightarrow> Inr (s # ss))
      | _ \<Rightarrow> Inl TypeError)"

text \<open>\<^verbatim>\<open>[e.get('emoji', '') for e in ...]\<close>\<close>

fun emoji_fields :: "json list \<Rightarrow> pyexc + json list" where
  "emoji_fields [] = Inr []"
| "emoji_fields (e # es) =
     (case e of
        JObj kvs \<Rightarrow>
          (case emoji_fields es of
             Inl ex \<Rightarrow> Inl ex
           | Inr vs \<Rightarrow> Inr (dict_get kvs ''emoji'' (JStr []) # vs))
      | _ \<Rightarrow> Inl AttributeError)"

text \<open>
  The format \<^verbatim>\<open>.1f\<close>: one decimal, correctly rounded from the exact binary value, ties
  to even. An int is made a float first; a \<^verbatim>\<open>str\<close> raises ValueError, every other
  type TypeError.
\<close>

definition tenths_text :: "bool \<Rightarrow> int \<Rightarrow> string" where
  "tenths_text negative t =
     (if negative then ''-'' else []) @ str_of_nat (nat (t div 10)) @ ''.'' @
     str_of_nat (nat (t mod 10))"

fun float_1f :: "pyfloat \<Rightarrow> string" where
  "float_1f NaN = ''nan''"
| "float_1f PInf = ''inf''"
| "float_1f NInf = ''-inf''"
| "float_1f NZero = ''-0.0''"
| "float_1f (Fin m e) =
     tenths_text (m < 0)
       (if 0 \<le> e then \<bar>m\<bar> * 10 * 2 ^ nat e else round_half_even (\<bar>m\<bar> * 10) (nat (- e)))"

definition format_1f :: "json \<Rightarrow> pyexc + string" where
  "format_1f v =
     (case v of
        JFloat f \<Rightarrow> Inr (float_1f f)
      | JStr s \<Rightarrow> Inl ValueError
      | _ \<Rightarrow>
          (case int_of v of
             None \<Rightarrow> Inl TypeError
           | Some a \<Rightarrow>
               (case int_to_float a of Inl ex \<Rightarrow> Inl ex | Inr f \<Rightarrow> Inr (float_1f f))))"

text \<open>\<^verbatim>\<open>x or default\<close> on an optional string: \<^verbatim>\<open>None\<close> and the empty string are false.\<close>

definition or_default :: "string option \<Rightarrow> string \<Rightarrow> string" where
  "or_default x dflt = (case x of None \<Rightarrow> dflt | Some s \<Rightarrow> if s = [] then dflt else s)"

text \<open>\<^verbatim>\<open>list(v.keys())[:3]\<close>: the attribute \<^verbatim>\<open>keys\<close> exists on a mapping only.\<close>

definition languages_of :: "json \<Rightarrow> pyexc + string list" where
  "languages_of v = (case v of JObj kvs \<Rightarrow> Inr (take 3 (map fst kvs)) | _ \<Rightarrow> Inl AttributeError)"

definition languages_line :: "string list \<Rightarrow> string" where
  "languages_line languages = (if languages \<noteq> [] then join '', '' languages else ''None detected'')"

text \<open>
  \<^verbatim>\<open>max(commit_times, key=commit_times.get)\<close>: the scan keeps the first key whose value no
  later value exceeds; each step is one \<^verbatim>\<open>>\<close> between two values.
\<close>

fun max_by_value :: "string \<times> json \<Rightarrow> (string \<times> json) list \<Rightarrow> pyexc + string" where
  "max_by_value best [] = Inr (fst best)"
| "max_by_value best (kv # rest) =
     (case py_gt (snd kv) (snd best) of
        Inl ex \<Rightarrow> Inl ex
      | Inr larger \<Rightarrow> max_by_value (if larger then kv else best) rest)"

definition most_active_time_of :: "json \<Rightarrow> pyexc + string" where
  "most_active_time_of commit_times =
     (case commit_times of
        JObj [] \<Rightarrow> Inr ''unknown''
      | JObj (kv # rest) \<Rightarrow> max_by_value kv rest
      | _ \<Rightarrow> if py_truthy commit_times then Inl AttributeError else Inr ''unknown'')"

definition top_emojis_line :: "json \<Rightarrow> pyexc + string" where
  "top_emojis_line top_emojis =
     (case py_slice 3 top_emojis of
        Inl ex \<Rightarrow> Inl ex
      | Inr first3 \<Rightarrow>
          (case emoji_fields (py_items first3) of
             Inl ex \<Rightarrow> Inl ex
           | Inr vs \<Rightarrow>
               (case str_items vs of Inl ex \<Rightarrow> Inl ex | Inr ss \<Rightarrow> Inr (join '', '' ss))))"

definition naming_patterns_line :: "json \<Rightarrow> pyexc + string" where
  "naming_patterns_line naming_patterns =
     (case py_slice 3 naming_patterns of
        Inl ex \<Rightarrow> Inl ex
      | Inr first3 \<Rightarrow>
          (case str_items (py_items first3) of
             Inl ex \<Rightarrow> Inl ex
           | Inr ss \<Rightarrow> Inr (join '', '' ss)))"

text \<open>\<^verbatim>\<open>[f"- {msg}" for msg in ...]\<close>: the items are printed from left to right.\<close>

fun message_lines :: "pyruntime \<Rightarrow> json list \<Rightarrow> pyexc + string list" where
  "message_lines rt [] = Inr []"
| "message_lines rt (msg # msgs) =
     (case py_str rt msg of
        Inl ex \<Rightarrow> Inl ex
      | Inr msg_text \<Rightarrow>
          (case message_lines rt msgs of
             Inl ex \<Rightarrow> Inl ex
           | Inr ls \<Rightarrow> Inr ((''- '' @ msg_text) # ls)))"

definition questionable_lines :: "pyruntime \<Rightarrow> json \<Rightarrow> pyexc + string" where
  "questionable_lines rt questionable_commits =
     (case py_slice 3 questionable_commits of
        Inl ex \<Rightarrow> Inl ex
      | Inr first3 \<Rightarrow>
          (case message_lines rt (py_items first3) of
             Inl ex \<Rightarrow> Inl ex
           | Inr ls \<Rightarrow> Inr (join nl ls)))"

definition repo_line :: "GitHubRepo \<Rightarrow> string" where
  "repo_line repo =
     ''- '' @ GitHubRepo.name repo @ '': '' @
     or_default (description repo) ''No description'' @ '' ('' @
     or_default (language repo) ''Unknown language'' @ '')''"

definition recent_repo_lines :: "GitHubRepo list \<Rightarrow> string" where
  "recent_repo_lines rs = join nl (map repo_line (take 3 rs))"

text \<open>The template, literal text and fields in the order of the source.\<close>

definition profile_section ::
  "string \<Rightarrow> string \<Rightarrow> string \<Rightarrow> string \<Rightarrow> string \<Rightarrow> string \<Rightarrow> string \<Rightarrow> string" where
  "profile_section username name_text bio_text age repo_total follower_total following_total =
     nl @ ''You are a witty, sarcastic GitHub code reviewer who specializes in roasting '' @
     ''developers based on their GitHub activity. '' @ nl @
     ''Create 5-8 clever, humorous roasts for this GitHub user. Be playful and '' @
     ''teasing, but never mean-spirited or personally attacking.'' @ nl @
     nl @ ''USER PROFILE:'' @ nl @ ''- Username: '' @ username @ nl @
     ''- Name: '' @ name_text @ nl @ ''- Bio: '' @ bio_text @ nl @
     ''- Account Age: '' @ age @ '' days'' @ nl @
     ''- Public Repos: '' @ repo_total @ nl @ ''- Followers: '' @ follower_total @ nl @
     ''- Following: '' @ following_total"

definition coding_section ::
  "string \<Rightarrow> string \<Rightarrow> string \<Rightarrow> string \<Rightarrow> string \<Rightarrow> string" where
  "coding_section languages_text most_active_time commit_count emoji_count top_emojis =
     nl @ nl @ ''CODING PATTERNS:'' @ nl @ ''- Primary Languages: '' @ languages_text @ nl @
     ''- Most Active Time: '' @ most_active_time @ nl @
     ''- Total Commits Analyzed: '' @ commit_count @ nl @
     ''- Emoji Usage: '' @ emoji_count @ '' emojis found'' @ nl @
     ''- Top Emojis: '' @ top_emojis"

definition repository_section ::
  "string \<Rightarrow> string \<Rightarrow> string \<Rightarrow> string \<Rightarrow> string \<Rightarrow> string" where
  "repository_section repo_count abandoned_repos one_commit_wonders naming_patterns
     stars_per_repo =
     nl @ nl @ ''REPOSITORY INSIGHTS:'' @ nl @ ''- Total Repos: '' @ repo_count @ nl @
     ''- Abandoned Repos: '' @ abandoned_repos @ nl @
     ''- One-Commit Wonders: '' @ one_commit_wonders @ nl @
     ''- Naming Patterns: '' @ naming_patterns @ nl @
     ''- Average Stars per Repo: '' @ stars_per_repo"

definition social_section :: "string \<Rightarrow> string" where
  "social_section follow_ratio =
     nl @ nl @ ''SOCIAL METRICS:'' @ nl @ ''- Follow Ratio: '' @ follow_ratio @
     '' (followers/following)'' @ nl @ nl @ ''QUESTIONABLE COMMIT MESSAGES:'' @ nl"

definition closing_section :: "string \<Rightarrow> string \<Rightarrow> string" where
  "closing_section questionable recent_repos =
     questionable @ nl @ nl @ ''RECENT REPOS:'' @ nl @
     recent_repos @ nl @ nl @
     ''Create roasts that reference specific patterns you see. Focus on:'' @ nl @
     ''1. Coding habits and commit patterns'' @ nl @
     ''2. Repository naming and organization'' @ nl @
     ''3. Commit message quality'' @ nl @ ''4. Social coding behavior'' @ nl @
     ''5. Language choices and project patterns'' @ nl @
     nl @ ''Make each roast:'' @ nl @ ''- Specific to their actual GitHub activity'' @ nl @
     ''- Clever and witty, not mean'' @ nl @ ''- Tech-savvy and programmer-humor focused'' @ nl @
     ''- About 1-2 sentences each'' @ nl @ nl @ ''Categories for roasts:'' @ nl @
     ''- coding_habits: About their coding patterns, commit times, etc.'' @ nl @
     ''- repo_patterns: About their repositories, naming, organization'' @ nl @
     ''- commit_messages: About their commit message quality'' @ nl @
     ''- social_metrics: About followers, stars, social coding behavior'' @ nl @
     ''- general: Overall developer personality/style'' @ nl @
     nl @ ''Severity levels:'' @ nl @ ''- mild: Gentle teasing'' @ nl @
     ''- medium: More pointed but still playful'' @ nl @
     ''- savage: Brutally honest but still humorous'' @ nl"

text \<open>
  The assignments first, then the fields of the f-string from left to right: the first
  one that raises ends the call. The lengths of the two lists are below \<open>2 ^ 63\<close> in
  any interpreter, so their text is always printed.
\<close>

definition create_roast_prompt :: "pyruntime \<Rightarrow> RoastRequest \<Rightarrow> pyexc + string" where
  "create_roast_prompt rt user_data =
     (let u = user user_data;
          a = analysis user_data;
          account_age = dict_get (userStats a) ''accountAge'' (JInt 0);
          repo_count = int (length (repos user_data));
          commit_count = int (length (commits user_data))
      in case languages_of (dict_get (repoAnalysis a) ''languages'' (JObj [])) of
           Inl ex \<Rightarrow> Inl ex
         | Inr languages \<Rightarrow>
      (case most_active_time_of (dict_get (commitPatterns a) ''timeOfDay'' (JObj [])) of
           Inl ex \<Rightarrow> Inl ex
         | Inr most_active_time \<Rightarrow>
      (case py_slice 5 (dict_get (commitLanguage a) ''questionableMessages'' (JList [])) of
           Inl ex \<Rightarrow> Inl ex
         | Inr questionable_commits \<Rightarrow>
      (let emoji_count = dict_get (emojiUsage a) ''count'' (JInt 0);
           top_emojis = dict_get (emojiUsage a) ''topEmojis'' (JList []);
           abandoned_repos = dict_get (repoAnalysis a) ''abandonedRepos'' (JInt 0);
           one_commit_wonders = dict_get (repoAnalysis a) ''oneCommitWonders'' (JInt 0);
           naming_patterns = dict_get (repoAnalysis a) ''namingPatterns'' (JList []);
           follow_ratio = dict_get (userStats a) ''followRatio'' (JInt 0);
           repo_to_star_ratio = dict_get (userStats a) ''repoToStarRatio'' (JInt 0)
       in case py_str rt account_age of
            Inl ex \<Rightarrow> Inl ex
          | Inr age_text \<Rightarrow>
       (case int_text rt (public_repos u) of
            Inl ex \<Rightarrow> Inl ex
          | Inr public_repos_text \<Rightarrow>
       (case int_text rt (followers u) of
            Inl ex \<Rightarrow> Inl ex
          | Inr followers_text \<Rightarrow>
       (case int_text rt (following u) of
            Inl ex \<Rightarrow> Inl ex
          | Inr following_text \<Rightarrow>
       (case py_str rt emoji_count of
            Inl ex \<Rightarrow> Inl ex
          | Inr emoji_count_text \<Rightarrow>
       (case top_emojis_line top_emojis of
            Inl ex \<Rightarrow> Inl ex
          | Inr emojis_text \<Rightarrow>
       (case py_str rt abandoned_repos of
            Inl ex \<Rightarrow> Inl ex
          | Inr abandoned_text \<Rightarrow>
       (case py_str rt one_commit_wonders of
            Inl ex \<Rightarrow> Inl ex
          | Inr wonders_text \<Rightarrow>
       (case naming_patterns_line naming_patterns of
            Inl ex \<Rightarrow> Inl ex
          | Inr naming_text \<Rightarrow>
       (case format_1f repo_to_star_ratio of
            Inl ex \<Rightarrow> Inl ex
          | Inr stars_text \<Rightarrow>
       (case format_1f follow_ratio of
            Inl ex \<Rightarrow> Inl ex
          | Inr ratio_text \<Rightarrow>
       (case questionable_lines rt questionable_commits of
            Inl ex \<Rightarrow> Inl ex
          | Inr questionable_text \<Rightarrow>
            Inr (profile_section (login u)
                   (or_default (GitHubUserData.name u) ''No name provided'')
                   (or_default (bio u) ''No bio'')
                   age_text public_repos_text followers_text following_text @
                 coding_section (languages_line languages) most_active_time
                   (str_of_int commit_count) emoji_count_text emojis_text @
                 repository_section (str_of_int repo_count) abandoned_text wonders_text
                   naming_text stars_text @
                 social_section ratio_text @
                 closing_section questionable_text
                   (recent_repo_lines (repos user_data))))))))))))))))))"

section \<open>\<^verbatim>\<open>generate_roasts\<close>\<close>

text \<open>
  The structured output the generative service is asked for, and the body of the reply
  the endpoint builds.
\<close>

record RoastLine =
  roast_text :: string
  category :: string
  severity :: string

record GeneratedRoasts =
  roasts :: "RoastLine list"
  overall_tone :: string

record RoastMetadata =
  roast_categories :: "string list"
  severity_levels :: "string list"

record RoastResponse =
  roasts :: "string list"
  source :: string
  overall_tone :: string
  metadata :: "RoastMetadata option"

definition fallback_response :: "string list \<Rightarrow> RoastResponse" where
  "fallback_response fallback_roasts =
     \<lparr>RoastResponse.roasts = fallback_roasts, source = ''fallback'',
      RoastResponse.overall_tone = ''mysterious'', metadata = None\<rparr>"

definition ai_response :: "GeneratedRoasts \<Rightarrow> RoastResponse" where
  "ai_response roast_data =
     \<lparr>RoastResponse.roasts = map roast_text (GeneratedRoasts.roasts roast_data),
      source = ''ai'',
      RoastResponse.overall_tone = GeneratedRoasts.overall_tone roast_data,
      metadata =
        Some \<lparr>roast_categories = map category (GeneratedRoasts.roasts roast_data),
              severity_levels = map severity (GeneratedRoasts.roasts roast_data)\<rparr>\<rparr>"

definition missing_key_detail :: string where
  "missing_key_detail =
     ''Gemini API key not configured. Please set GEMINI_API_KEY environment variable.''"

text \<open>
  The environment variable is \<open>None\<close> when unset. The call to the generative service is
  a parameter: given the prompt it raises or gives the parsed reply, which may be absent.
\<close>

type_synonym service = "string \<Rightarrow> pyexc + GeneratedRoasts option"

text \<open>The body of the \<^verbatim>\<open>try\<close> block: a \<^verbatim>\<open>raise\<close> in it is an \<open>Inl\<close>.\<close>

definition generate_roasts_try ::
  "pyruntime \<Rightarrow> string option \<Rightarrow> service \<Rightarrow> RoastRequest \<Rightarrow> pyexc + RoastResponse" where
  "generate_roasts_try rt api_key generate_content request =
     (if api_key = None \<or> api_key = Some []
      then Inl (HTTPException 500 missing_key_detail)
      else
        case create_roast_prompt rt request of
          Inl ex \<Rightarrow> Inl ex
        | Inr prompt \<Rightarrow>
            (case generate_content prompt of
               Inl ex \<Rightarrow> Inl ex
             | Inr roast_data \<Rightarrow>
                 (if roast_data = None \<or> GeneratedRoasts.roasts (the roast_data) = []
                  then
                    (case generate_fallback_roasts rt request of
                       Inl ex \<Rightarrow> Inl ex
                     | Inr fallback_roasts \<Rightarrow> Inr (fallback_response fallback_roasts))
                  else Inr (ai_response (the roast_data)))))"

text \<open>
  \<^verbatim>\<open>except Exception\<close> takes every exception the block raises, \<^verbatim>\<open>HTTPException\<close>
  among them (it is a subclass of \<^verbatim>\<open>Exception\<close>); the handler calls the fallback
  generator, outside any \<^verbatim>\<open>try\<close>.
\<close>

definition generate_roasts ::
  "pyruntime \<Rightarrow> string option \<Rightarrow> service \<Rightarrow> RoastRequest \<Rightarrow> pyexc + RoastResponse" where
  "generate_roasts rt api_key generate_content request =
     (case generate_roasts_try rt api_key generate_content request of
        Inr response \<Rightarrow> Inr response
      | Inl ex \<Rightarrow>
          (case generate_fallback_roasts rt request of
             Inl ex' \<Rightarrow> Inl ex'
           | Inr fallback_roasts \<Rightarrow> Inr (fallback_response fallback_roasts)))"

section \<open>Inputs and shapes the theorems speak about\<close>

text \<open>
  A number (\<^verbatim>\<open>int\<close>, \<^verbatim>\<open>float\<close> or \<^verbatim>\<open>bool\<close>) is what the comparisons of the rule
  engines accept. Where the code prints a number or makes it a float, an int has to be
  below \<open>2 ^ 1023\<close> in magnitude: such an int is within the range of a float and has
  fewer than 640 digits.
\<close>

definition numeric :: "json \<Rightarrow> bool" where
  "numeric v = (num_of v \<noteq> None)"

definition small_number :: "json \<Rightarrow> bool" where
  "small_number v =
     (case v of
        JFloat f \<Rightarrow> True
      | JBool b \<Rightarrow> True
      | JInt n \<Rightarrow> \<bar>n\<bar> < 2 ^ 1023
      | _ \<Rightarrow> False)"

definition count_of :: "json \<Rightarrow> int" where
  "count_of v = (case int_of v of None \<Rightarrow> 0 | Some n \<Rightarrow> n)"

text \<open>
  Commit counts: a mapping whose values are non-negative ints with a sum below
  \<open>2 ^ 1023\<close>, the sum being what the code multiplies by a float.
\<close>

definition bounded_commit_counts :: "json \<Rightarrow> bool" where
  "bounded_commit_counts v =
     (case v of
        JObj kvs \<Rightarrow>
          list_all (\<lambda>x. case int_of x of None \<Rightarrow> False | Some n \<Rightarrow> 0 \<le> n) (map snd kvs) \<and>
          sum_list (map count_of (map snd kvs)) < 2 ^ 1023
      | _ \<Rightarrow> False)"

text \<open>
  The values \<^verbatim>\<open>generate_fallback_roasts\<close> reads, each absent or of the type the code
  uses it at: \<^verbatim>\<open>accountAge\<close> and \<^verbatim>\<open>abandonedRepos\<close> are compared and printed,
  \<^verbatim>\<open>count\<close> and \<^verbatim>\<open>followRatio\<close> are compared only.
\<close>

definition fallback_values_typed :: "UserAnalysis \<Rightarrow> bool" where
  "fallback_values_typed a =
     (small_number (dict_get (userStats a) ''accountAge'' (JInt 0)) \<and>
      bounded_commit_counts (dict_get (commitPatterns a) ''timeOfDay'' (JObj [])) \<and>
      numeric (dict_get (emojiUsage a) ''count'' (JInt 0)) \<and>
      small_number (dict_get (repoAnalysis a) ''abandonedRepos'' (JInt 0)) \<and>
      numeric (dict_get (userStats a) ''followRatio'' (JInt 0)))"

text \<open>The same for \<^verbatim>\<open>analyze_roast_potential\<close>, which compares and prints nothing.\<close>

definition scoring_values_typed :: "UserAnalysis \<Rightarrow> bool" where
  "scoring_values_typed a =
     (numeric (dict_get (emojiUsage a) ''count'' (JInt 0)) \<and>
      numeric (dict_get (repoAnalysis a) ''abandonedRepos'' (JInt 0)) \<and>
      numeric (dict_get (userStats a) ''followRatio'' (JInt 1)) \<and>
      bounded_commit_counts (dict_get (commitPatterns a) ''timeOfDay'' (JObj [])) \<and>
      numeric (dict_get (commitLanguage a) ''averageLength'' (JInt 0)))"

text \<open>
  And for \<^verbatim>\<open>create_roast_prompt\<close>. A value the code prints with \<^verbatim>\<open>str\<close> is not a
  list or a mapping, and if an int is below \<open>2 ^ 1023\<close> in magnitude; a value it
  formats with \<^verbatim>\<open>.1f\<close> is a float, a bool or such an int; where the code calls
  \<^verbatim>\<open>keys\<close> or \<^verbatim>\<open>get\<close>, slices or joins, the value is a mapping or a list of
  the items the code expects.
\<close>

definition printable :: "json \<Rightarrow> bool" where
  "printable v =
     (case v of
        JInt n \<Rightarrow> \<bar>n\<bar> < 2 ^ 1023
      | JList xs \<Rightarrow> False
      | JObj kvs \<Rightarrow> False
      | _ \<Rightarrow> True)"

definition is_mapping :: "json \<Rightarrow> bool" where
  "is_mapping v = (case v of JObj kvs \<Rightarrow> True | _ \<Rightarrow> False)"

definition is_str :: "json \<Rightarrow> bool" where
  "is_str v = (case v of JStr s \<Rightarrow> True | _ \<Rightarrow> False)"

definition numeric_mapping :: "json \<Rightarrow> bool" where
  "numeric_mapping v = (case v of JObj kvs \<Rightarrow> list_all numeric (map snd kvs) | _ \<Rightarrow> False)"

definition printable_list :: "json \<Rightarrow> bool" where
  "printable_list v = (case v of JList xs \<Rightarrow> list_all printable xs | _ \<Rightarrow> False)"

definition str_list :: "json \<Rightarrow> bool" where
  "str_list v = (case v of JList xs \<Rightarrow> list_all is_str xs | _ \<Rightarrow> False)"

definition emoji_entry :: "json \<Rightarrow> bool" where
  "emoji_entry v = (case v of JObj kvs \<Rightarrow> is_str (dict_get kvs ''emoji'' (JStr [])) | _ \<Rightarrow> False)"

definition emoji_list :: "json \<Rightarrow> bool" where
  "emoji_list v = (case v of JList xs \<Rightarrow> list_all emoji_entry xs | _ \<Rightarrow> False)"

definition prompt_values_typed :: "RoastRequest \<Rightarrow> bool" where
  "prompt_values_typed request =
     (let u = user request; a = analysis request
      in \<bar>public_repos u\<bar> < 2 ^ 1023 \<and> \<bar>followers u\<bar> < 2 ^ 1023 \<and>
         \<bar>following u\<bar> < 2 ^ 1023 \<and>
         printable (dict_get (userStats a) ''accountAge'' (JInt 0)) \<and>
         printable (dict_get (emojiUsage a) ''count'' (JInt 0)) \<and>
         printable (dict_get (repoAnalysis a) ''abandonedRepos'' (JInt 0)) \<and>
         printable (dict_get (repoAnalysis a) ''oneCommitWonders'' (JInt 0)) \<and>
         is_mapping (dict_get (repoAnalysis a) ''languages'' (JObj [])) \<and>
         numeric_mapping (dict_get (commitPatterns a) ''timeOfDay'' (JObj [])) \<and>
         printable_list (dict_get (commitLanguage a) ''questionableMessages'' (JList [])) \<and>
         emoji_list (dict_get (emojiUsage a) ''topEmojis'' (JList [])) \<and>
         str_list (dict_get (repoAnalysis a) ''namingPatterns'' (JList [])) \<and>
         small_number (dict_get (userStats a) ''repoToStarRatio'' (JInt 0)) \<and>
         small_number (dict_get (userStats a) ''followRatio'' (JInt 0)))"

text \<open>
  The three keys with the highest counts, which is what "most used languages" would mean:
  the keys in descending order of their counts, the first three of them. This follows the
  wording, not the code.
\<close>

definition three_highest_count_keys :: "(string \<times> int) list \<Rightarrow> string list" where
  "three_highest_count_keys kvs = take 3 (map fst (rev (sort_key snd kvs)))"

text \<open>The weight the scorer adds with each factor tag.\<close>

definition weight_of :: "string \<Rightarrow> int" where
  "weight_of tag =
     (if tag = ''questionable_commits'' then 20
      else if tag = ''emoji_overuse'' then 15
      else if tag = ''emoji_drought'' then 10
      else if tag = ''repo_abandonment'' then 25
      else if tag = ''social_awkwardness'' then 15
      else if tag = ''night_owl_coding'' then 20
      else if tag = ''lazy_commit_messages'' then 10
      else 0)"

subsection \<open>Concrete requests\<close>

text \<open>
  A runtime with the default digit limit of CPython 3.11, for inputs that never reach the
  three builtins.
\<close>

definition plain_runtime :: pyruntime where
  "plain_runtime =
     \<lparr>float_repr = (\<lambda>f. ''?''), container_repr = (\<lambda>v. Inr ''?''),
      float_floordiv = (\<lambda>f d. NaN), max_str_digits = 4300\<rparr>"

text \<open>The user and repositories of the sample payload in \<^verbatim>\<open>server/test_api.py\<close>.\<close>

definition test_user :: GitHubUserData where
  "test_user =
     \<lparr>login = ''testuser'', GitHubUserData.name = Some ''Test User'',
      bio = Some ''I love coding at 3 AM'', public_repos = 42, followers = 10,
      following = 100, GitHubUserData.created_at = ''2020-01-01T00:00:00Z'',
      avatar_url = ''https://github.com/testuser.png''\<rparr>"

definition test_repos :: "GitHubRepo list" where
  "test_repos =
     [\<lparr>GitHubRepo.name = ''my-awesome-project'', description = Some ''Yet another TODO app'',
       language = Some ''JavaScript'', stargazers_count = 0, forks_count = 0,
       GitHubRepo.created_at = ''2024-01-01T00:00:00Z'',
       updated_at = ''2024-01-02T00:00:00Z''\<rparr>,
      \<lparr>GitHubRepo.name = ''hello-world'', description = None,
       language = Some ''Python'', stargazers_count = 1, forks_count = 0,
       GitHubRepo.created_at = ''2024-01-01T00:00:00Z'',
       updated_at = ''2024-01-01T00:00:00Z''\<rparr>]"

definition request_with :: "UserAnalysis \<Rightarrow> RoastRequest" where
  "request_with a = \<lparr>user = test_user, repos = test_repos, commits = [], analysis = a\<rparr>"

definition empty_analysis :: UserAnalysis where
  "empty_analysis =
     \<lparr>commitPatterns = [], emojiUsage = [], commitLanguage = [], repoAnalysis = [],
      userStats = []\<rparr>"

text \<open>Scenario A of the specification; 0.21 is the binary64 number nearest to it.\<close>

definition scenario_a :: UserAnalysis where
  "scenario_a =
     \<lparr>commitPatterns =
        [(''timeOfDay'',
          JObj [(''morning'', JInt 0), (''afternoon'', JInt 1), (''evening'', JInt 0),
                (''night'', JInt 4)])],
      emojiUsage = [(''count'', JInt 3)],
      commitLanguage = [],
      repoAnalysis = [(''abandonedRepos'', JInt 1)],
      userStats =
        [(''accountAge'', JInt 1500),
         (''followRatio'', JFloat (Fin 7566047373982433 (- 55)))]\<rparr>"

text \<open>
  Requests the validation layer accepts and the code raises on: a ratio or an average that
  the client computed by dividing by zero arrives as JSON \<^verbatim>\<open>null\<close>; a count may arrive
  as text.
\<close>

definition null_follow_ratio :: UserAnalysis where
  "null_follow_ratio = empty_analysis\<lparr>userStats := [(''followRatio'', JNull)]\<rparr>"

definition text_emoji_count :: UserAnalysis where
  "text_emoji_count = empty_analysis\<lparr>emojiUsage := [(''count'', JStr ''3'')]\<rparr>"

definition null_average_length :: UserAnalysis where
  "null_average_length = empty_analysis\<lparr>commitLanguage := [(''averageLength'', JNull)]\<rparr>"

definition null_star_ratio :: UserAnalysis where
  "null_star_ratio = empty_analysis\<lparr>userStats := [(''repoToStarRatio'', JNull)]\<rparr>"

text \<open>
  A request on which no rule of \<^verbatim>\<open>generate_fallback_roasts\<close> fires: an account of some
  years, a few emojis, as many followers as followed.
\<close>

definition quiet_profile :: UserAnalysis where
  "quiet_profile =
     empty_analysis\<lparr>emojiUsage := [(''count'', JInt 3)],
       userStats := [(''accountAge'', JInt 1500), (''followRatio'', JInt 1)]\<rparr>"

text \<open>
  The analysis of the sample payload in \<^verbatim>\<open>server/test_api.py\<close>; 0.1 and 0.5 are the
  binary64 numbers the parser gives.
\<close>

definition test_analysis :: UserAnalysis where
  "test_analysis =
     \<lparr>commitPatterns =
        [(''timeOfDay'',
          JObj [(''morning'', JInt 0), (''afternoon'', JInt 0), (''evening'', JInt 0),
                (''night'', JInt 3)]),
         (''dayOfWeek'',
          JObj [(''Monday'', JInt 3), (''Tuesday'', JInt 0), (''Wednesday'', JInt 0),
                (''Thursday'', JInt 0), (''Friday'', JInt 0), (''Saturday'', JInt 0),
                (''Sunday'', JInt 0)]),
         (''commitFrequency'',
          JObj [(''daily'', JInt 3), (''weekly'', JInt 3), (''monthly'', JInt 3)])],
      emojiUsage =
        [(''count'', JInt 1),
         (''topEmojis'',
          JList [JObj [(''emoji'', JStr [CHR 0xF0, CHR 0x9F, CHR 0x8E, CHR 0x89]),
                       (''count'', JInt 1)]])],
      commitLanguage =
        [(''averageLength'', JInt 15), (''shortMessages'', JInt 1), (''longMessages'', JInt 0),
         (''questionableMessages'',
          JList [JStr ''fix stuff'', JStr (''why doesn'' @ [CHR 0x27] @ ''t this work???'')])],
      repoAnalysis =
        [(''namingPatterns'', JList [JStr ''kebab-case'', JStr ''hasApp'']),
         (''languages'', JObj [(''JavaScript'', JInt 1), (''Python'', JInt 1)]),
         (''abandonedRepos'', JInt 0), (''oneCommitWonders'', JInt 1)],
      userStats =
        [(''accountAge'', JInt 1500), (''publicContributions'', JInt 3),
         (''followRatio'', JFloat (Fin 3602879701896397 (- 55))),
         (''repoToStarRatio'', JFloat (Fin 1 (- 1)))]\<rparr>"

text \<open>A day without commits.\<close>

definition all_zero_counts :: UserAnalysis where
  "all_zero_counts =
     empty_analysis\<lparr>commitPatterns :=
       [(''timeOfDay'',
         JObj [(''morning'', JInt 0), (''afternoon'', JInt 0), (''evening'', JInt 0),
               (''night'', JInt 0)])]\<rparr>"

text \<open>A request without the key \<^verbatim>\<open>followRatio\<close>, the other values as in scenario A.\<close>

definition no_follow_ratio :: UserAnalysis where
  "no_follow_ratio = scenario_a\<lparr>userStats := [(''accountAge'', JInt 1500)]\<rparr>"

text \<open>Many emojis, and none.\<close>

definition many_emojis :: UserAnalysis where
  "many_emojis = empty_analysis\<lparr>emojiUsage := [(''count'', JInt 12)]\<rparr>"

text \<open>A mapping whose first three keys are not its three most counted ones.\<close>

definition skewed_languages :: UserAnalysis where
  "skewed_languages =
     empty_analysis\<lparr>repoAnalysis :=
       [(''languages'',
         JObj [(''HTML'', JInt 1), (''CSS'', JInt 2), (''Shell'', JInt 1), (''Python'', JInt 40),
               (''Rust'', JInt 7)])]\<rparr>"

text \<open>A generative service that fails.\<close>

definition failing_service :: service where
  "failing_service prompt = Inl (ServiceError ''unavailable'')"

section \<open>Comparisons and arithmetic\<close>

lemma py_gt_numeric:
  "num_of v = Some x \<Longrightarrow> num_of w = Some y \<Longrightarrow> py_gt v w = Inr (fl_less y x)"
  by (cases v) auto

lemma py_lt_numeric:
  "num_of v = Some x \<Longrightarrow> num_of w = Some y \<Longrightarrow> py_lt v w = Inr (fl_less x y)"
  by (simp add: py_lt_def py_gt_numeric)

lemma py_gt_not_numeric: "num_of v = None \<Longrightarrow> num_of w \<noteq> None \<Longrightarrow> py_gt v w = Inl TypeError"
  by (cases v; cases w) auto

lemma py_gt_int:
  "py_gt v (JInt n) =
     (case num_of v of None \<Rightarrow> Inl TypeError | Some x \<Rightarrow> Inr (fl_less (Fin n 0) x))"
  by (cases "num_of v") (simp_all add: py_gt_not_numeric py_gt_numeric)


lemma py_lt_float:
  "py_lt v (JFloat c) =
     (case num_of v of None \<Rightarrow> Inl TypeError | Some x \<Rightarrow> Inr (fl_less x c))"
  by (simp add: py_lt_def)

lemma int_of_num_of: "int_of v = Some n \<Longrightarrow> num_of v = Some (Fin n 0)"
  by (cases v) auto

lemma nbits_nonneg: "0 \<le> nbits n"
  by (induction n rule: nbits.induct) (subst nbits.simps, simp)

lemma nbits_upper: "0 \<le> n \<Longrightarrow> n < 2 ^ nat (nbits n)"
proof (induction n rule: nbits.induct)
  case (1 n)
  show ?case
  proof (cases "n \<le> 0")
    case True
    with 1 show ?thesis by (subst nbits.simps) simp
  next
    case False
    then have ih: "n div 2 < 2 ^ nat (nbits (n div 2))" using 1 by simp
    have eq: "nbits n = 1 + nbits (n div 2)" using False by (subst nbits.simps) simp
    have "nat (1 + nbits (n div 2)) = Suc (nat (nbits (n div 2)))"
      using nbits_nonneg [of "n div 2"] by simp
    moreover have "n < 2 * (n div 2 + 1)" by presburger
    ultimately show ?thesis using ih eq by simp
  qed
qed

lemma nbits_le: "n < 2 ^ k \<Longrightarrow> nbits n \<le> int k"
proof (induction k arbitrary: n)
  case 0
  then show ?case by (subst nbits.simps) simp
next
  case (Suc k)
  show ?case
  proof (cases "n \<le> 0")
    case True
    then show ?thesis by (subst nbits.simps) simp
  next
    case False
    have "n div 2 < 2 ^ k" using Suc.prems by simp
    then have "nbits (n div 2) \<le> int k" by (rule Suc.IH)
    then show ?thesis using False by (subst nbits.simps) simp
  qed
qed

lemma round_half_even_le: "0 \<le> a \<Longrightarrow> round_half_even a s \<le> a div 2 ^ s + 1"
  by (simp add: round_half_even_def Let_def)

lemma int_div_less: "(0::int) < p \<Longrightarrow> a < p * c \<Longrightarrow> a div p < c"
proof -
  assume p: "0 < p" and ac: "a < p * c"
  have "p * (a div p) + a mod p = a" by simp
  moreover have "0 \<le> a mod p" using p by simp
  ultimately have "p * (a div p) \<le> a" by linarith
  with ac have "p * (a div p) < p * c" by linarith
  then show ?thesis using p by (simp add: mult_less_cancel_left_pos)
qed

text \<open>An int below \<open>2 ^ 1023\<close> in magnitude converts to a finite float.\<close>

lemma round_double_small:
  assumes "\<bar>n\<bar> < 2 ^ 1023"
  shows "\<not> fl_inf (round_double n 0)"
proof (cases "n = 0")
  case True
  then show ?thesis by (simp add: round_double_def fl_inf_def)
next
  case False
  define a where "a = \<bar>n\<bar>"
  define t where "t = max (nbits a + 0 - 53) (- 1074)"
  define k where "k = (if t \<le> 0 then a else round_half_even a (nat (t - 0)))"
  define x where "x = (if t \<le> 0 then 0 else t)"
  have a: "0 < a" "a < 2 ^ 1023" using False assms by (auto simp: a_def)
  have b: "nbits a \<le> 1023" using nbits_le [OF a(2)] by simp
  have t: "t = nbits a - 53" using nbits_nonneg [of a] by (simp add: t_def)
  have "nbits k + x \<le> 1024"
  proof (cases "t \<le> 0")
    case True
    then show ?thesis using b by (simp add: k_def x_def)
  next
    case False
    have "a < 2 ^ nat (nbits a)" using a by (intro nbits_upper) simp
    also have "nat (nbits a) = 53 + nat t" using False t by simp
    finally have "a < 2 ^ nat t * 2 ^ 53" by (simp add: power_add mult.commute)
    then have "a div 2 ^ nat t < 2 ^ 53"
      by (intro int_div_less) simp_all
    moreover have "k \<le> a div 2 ^ nat t + 1"
      using False a round_half_even_le [of a "nat t"] by (simp add: k_def)
    ultimately have "k < 2 ^ 54" by simp
    then have "nbits k \<le> 54" using nbits_le [of k 54] by simp
    then show ?thesis using False t b by (simp add: x_def)
  qed
  then have "round_double n 0 = (if k = 0 then (if n < 0 then NZero else Fin 0 0)
      else Fin (if n < 0 then - k else k) x)"
    using False unfolding round_double_def Let_def a_def [symmetric] t_def [symmetric]
      k_def [symmetric] x_def [symmetric] by simp
  then show ?thesis by (simp add: fl_inf_def)
qed

lemma int_to_float_small: "\<bar>n\<bar> < 2 ^ 1023 \<Longrightarrow> \<exists>f. int_to_float n = Inr f"
  using round_double_small [of n] by (simp add: int_to_float_def Let_def)

section \<open>Printing numbers\<close>

lemma str_of_nat_length: "n < 10 ^ k \<Longrightarrow> length (str_of_nat n) \<le> max k 1"
proof (induction k arbitrary: n)
  case 0
  then show ?case by (subst str_of_nat.simps) simp
next
  case (Suc k)
  show ?case
  proof (cases "n < 10")
    case True
    then show ?thesis by (subst str_of_nat.simps) simp
  next
    case False
    have "n div 10 < 10 ^ k" using Suc.prems by (simp add: less_mult_imp_div_less)
    then have "length (str_of_nat (n div 10)) \<le> max k 1" by (rule Suc.IH)
    moreover have "0 < k" using False Suc.prems by (cases k) simp_all
    ultimately show ?thesis using False by (subst str_of_nat.simps) simp
  qed
qed

lemma str_of_int_length:
  assumes "\<bar>i\<bar> < 2 ^ 1023"
  shows "length (str_of_int i) \<le> 640"
proof -
  have "nat \<bar>i\<bar> < 2 ^ 1023" using assms by (simp add: nat_less_iff)
  also have "(2::nat) ^ 1023 < 10 ^ 639" by simp
  finally have "length (str_of_nat (nat \<bar>i\<bar>)) \<le> 639"
    using str_of_nat_length [of "nat \<bar>i\<bar>" 639] by simp
  then show ?thesis by (auto simp: str_of_int_def abs_if split: if_splits)
qed

text \<open>An int below \<open>2 ^ 1023\<close> in magnitude is printed whatever the digit limit.\<close>

lemma int_text_small: "\<bar>i\<bar> < 2 ^ 1023 \<Longrightarrow> int_text rt i = Inr (str_of_int i)"
  using str_of_int_length [of i] by (simp add: int_text_def)

lemma py_str_printable: "printable v \<Longrightarrow> \<exists>s. py_str rt v = Inr s"
  by (cases v) (simp_all add: printable_def py_str_def int_text_small)

lemma small_number_printable: "small_number v \<Longrightarrow> printable v"
  by (cases v) (simp_all add: small_number_def printable_def)

lemma small_number_numeric: "small_number v \<Longrightarrow> numeric v"
  by (cases v) (simp_all add: small_number_def numeric_def)

lemma py_str_raises:
  "numeric v \<Longrightarrow> py_str rt v = Inl ex \<Longrightarrow> ex = ValueError"
  by (cases v) (auto simp: numeric_def py_str_def int_text_def split: if_splits)

section \<open>The night share\<close>

lemma py_sum_from_counts:
  "list_all (\<lambda>x. int_of x \<noteq> None) vs \<Longrightarrow>
     py_sum_from (JInt acc) vs = Inr (JInt (acc + sum_list (map count_of vs)))"
proof (induction vs arbitrary: acc)
  case Nil
  then show ?case by simp
next
  case (Cons v vs)
  from Cons.prems obtain n where n: "int_of v = Some n" by auto
  have "py_add (JInt acc) v = Inr (JInt (acc + n))" by (simp add: py_add_def n)
  moreover have "py_sum_from (JInt (acc + n)) vs =
      Inr (JInt (acc + n + sum_list (map count_of vs)))"
    using Cons.prems by (intro Cons.IH) simp
  moreover have "count_of v = n" by (simp add: count_of_def n)
  ultimately show ?case by (simp add: add.assoc)
qed

lemma sum_counts_nonneg:
  "list_all (\<lambda>x. case int_of x of None \<Rightarrow> False | Some n \<Rightarrow> 0 \<le> n) vs \<Longrightarrow>
     0 \<le> sum_list (map count_of vs)"
  by (induction vs) (auto simp: count_of_def split: option.splits)

lemma dict_get_cases:
  "dict_get d k dflt = dflt \<or> dict_get d k dflt \<in> set (map snd d)"
  by (auto simp: dict_get_def split: option.splits dest: map_of_SomeD intro: rev_image_eqI)

lemma night_share_exceeds_counts:
  assumes "bounded_commit_counts (dict_get (commitPatterns a) ''timeOfDay'' (JObj []))"
  shows "\<exists>fires. night_share_exceeds c a = Inr fires"
proof -
  from assms obtain kvs where
    kvs: "dict_get (commitPatterns a) ''timeOfDay'' (JObj []) = JObj kvs" and
    all: "list_all (\<lambda>x. case int_of x of None \<Rightarrow> False | Some n \<Rightarrow> 0 \<le> n) (map snd kvs)" and
    small: "sum_list (map count_of (map snd kvs)) < 2 ^ 1023"
    by (auto simp: bounded_commit_counts_def split: json.splits)
  define s where "s = sum_list (map count_of (map snd kvs))"
  have ints: "list_all (\<lambda>x. int_of x \<noteq> None) (map snd kvs)"
    using all by (auto simp: list_all_iff split: option.splits)
  have sum: "py_sum (map snd kvs) = Inr (JInt s)"
    using py_sum_from_counts [OF ints, of 0] by (simp add: py_sum_def s_def)
  have "\<bar>s\<bar> < 2 ^ 1023"
    using small sum_counts_nonneg [OF all] by (simp add: s_def)
  then obtain f where f: "int_to_float s = Inr f"
    using int_to_float_small by blast
  have mul: "py_mul_float (JInt s) c = Inr (JFloat (fl_mul f c))"
    by (simp add: py_mul_float_def f)
  have "int_of (dict_get kvs ''night'' (JInt 0)) \<noteq> None"
    using dict_get_cases [of kvs "''night''" "JInt 0"] ints by (auto simp: list_all_iff)
  then obtain n where "num_of (dict_get kvs ''night'' (JInt 0)) = Some (Fin n 0)"
    using int_of_num_of by blast
  then have "py_gt (dict_get kvs ''night'' (JInt 0)) (JFloat (fl_mul f c)) =
      Inr (fl_less (fl_mul f c) (Fin n 0))"
    by (intro py_gt_numeric) simp_all
  then show ?thesis by (simp add: night_share_exceeds_def kvs sum mul Let_def)
qed

section \<open>The acc are different texts\<close>

lemma night_owl_roast_distinct:
  "night_owl_roast \<noteq> new_account_roast l"
  "night_owl_roast \<noteq> veteran_roast y"
  "night_owl_roast \<noteq> emoji_overuse_roast"
  "night_owl_roast \<noteq> emoji_drought_roast"
  "night_owl_roast \<noteq> abandoned_repos_roast n"
  "night_owl_roast \<noteq> follow_ratio_roast"
  "night_owl_roast \<noteq> generic_roast_1"
  "night_owl_roast \<noteq> generic_roast_2"
  "night_owl_roast \<noteq> generic_roast_3"
  by (simp_all add: night_owl_roast_def new_account_roast_def veteran_roast_def
      emoji_overuse_roast_def emoji_drought_roast_def abandoned_repos_roast_def
      follow_ratio_roast_def generic_roast_1_def generic_roast_2_def generic_roast_3_def)

lemma emoji_overuse_roast_distinct:
  "emoji_overuse_roast \<noteq> new_account_roast l"
  "emoji_overuse_roast \<noteq> veteran_roast y"
  "emoji_overuse_roast \<noteq> night_owl_roast"
  "emoji_overuse_roast \<noteq> emoji_drought_roast"
  "emoji_overuse_roast \<noteq> abandoned_repos_roast n"
  "emoji_overuse_roast \<noteq> follow_ratio_roast"
  "emoji_overuse_roast \<noteq> generic_roast_1"
  "emoji_overuse_roast \<noteq> generic_roast_2"
  "emoji_overuse_roast \<noteq> generic_roast_3"
  by (simp_all add: night_owl_roast_def new_account_roast_def veteran_roast_def
      emoji_overuse_roast_def emoji_drought_roast_def abandoned_repos_roast_def
      follow_ratio_roast_def generic_roast_1_def generic_roast_2_def generic_roast_3_def)

lemma emoji_drought_roast_distinct:
  "emoji_drought_roast \<noteq> new_account_roast l"
  "emoji_drought_roast \<noteq> veteran_roast y"
  "emoji_drought_roast \<noteq> night_owl_roast"
  "emoji_drought_roast \<noteq> emoji_overuse_roast"
  "emoji_drought_roast \<noteq> abandoned_repos_roast n"
  "emoji_drought_roast \<noteq> follow_ratio_roast"
  "emoji_drought_roast \<noteq> generic_roast_1"
  "emoji_drought_roast \<noteq> generic_roast_2"
  "emoji_drought_roast \<noteq> generic_roast_3"
  by (simp_all add: night_owl_roast_def new_account_roast_def veteran_roast_def
      emoji_overuse_roast_def emoji_drought_roast_def abandoned_repos_roast_def
      follow_ratio_roast_def generic_roast_1_def generic_roast_2_def generic_roast_3_def)


section \<open>The blocks of \<^verbatim>\<open>generate_fallback_roasts\<close>\<close>

lemma account_age_roasts_shape:
  "account_age_roasts rt request acc = Inr ys \<Longrightarrow>
     \<exists>p. ys = acc @ p \<and> account_age_roasts rt request [] = Inr p \<and>
         (p = [] \<or> p = [new_account_roast (login (user request))] \<or>
          (\<exists>years. p = [veteran_roast years]))"
  unfolding account_age_roasts_def Let_def
  by (auto split: sum.splits bool.splits)

lemma commit_pattern_roasts_shape:
  "commit_pattern_roasts request acc = Inr ys \<Longrightarrow>
     \<exists>p. ys = acc @ p \<and> commit_pattern_roasts request [] = Inr p \<and>
         (p = [] \<and> night_share_exceeds c_0_4 (analysis request) = Inr False \<or>
          p = [night_owl_roast] \<and> night_share_exceeds c_0_4 (analysis request) = Inr True)"
  unfolding commit_pattern_roasts_def
  by (auto split: sum.splits)

lemma emoji_roasts_shape:
  "emoji_roasts request acc = Inr ys \<Longrightarrow>
     \<exists>p. ys = acc @ p \<and> emoji_roasts request [] = Inr p \<and>
         (p = [] \<or> p = [emoji_overuse_roast] \<or> p = [emoji_drought_roast])"
  unfolding emoji_roasts_def Let_def
  by (auto split: sum.splits bool.splits)

lemma emoji_roasts_cases:
  "emoji_roasts request [] = Inr p \<Longrightarrow>
     p = [emoji_overuse_roast] \<and>
       py_gt (dict_get (emojiUsage (analysis request)) ''count'' (JInt 0)) (JInt 10) = Inr True \<or>
     p = [emoji_drought_roast] \<and>
       py_gt (dict_get (emojiUsage (analysis request)) ''count'' (JInt 0)) (JInt 10) = Inr False \<and>
       py_eq (dict_get (emojiUsage (analysis request)) ''count'' (JInt 0)) (JInt 0) \<or>
     p = [] \<and>
       py_gt (dict_get (emojiUsage (analysis request)) ''count'' (JInt 0)) (JInt 10) = Inr False \<and>
       \<not> py_eq (dict_get (emojiUsage (analysis request)) ''count'' (JInt 0)) (JInt 0)"
  unfolding emoji_roasts_def Let_def
  by (auto split: sum.splits bool.splits if_splits)

lemma repository_roasts_shape:
  "repository_roasts rt request acc = Inr ys \<Longrightarrow>
     \<exists>p. ys = acc @ p \<and> repository_roasts rt request [] = Inr p \<and>
         (p = [] \<or> (\<exists>n. p = [abandoned_repos_roast n]))"
  unfolding repository_roasts_def Let_def
  by (auto split: sum.splits bool.splits)

lemma follow_ratio_roasts_shape:
  "follow_ratio_roasts request acc = Inr ys \<Longrightarrow>
     \<exists>p. ys = acc @ p \<and> follow_ratio_roasts request [] = Inr p \<and>
         (p = [] \<or> p = [follow_ratio_roast])"
  unfolding follow_ratio_roasts_def Let_def
  by (auto split: sum.splits)

text \<open>The acc of the rules are the contributions of the five blocks, in that order.\<close>

lemma rule_roasts_parts:
  assumes "rule_roasts rt request = Inr acc"
  shows "\<exists>p1 p2 p3 p4 p5.
           acc = p1 @ p2 @ p3 @ p4 @ p5 \<and>
           account_age_roasts rt request [] = Inr p1 \<and>
           (p1 = [] \<or> p1 = [new_account_roast (login (user request))] \<or>
            (\<exists>years. p1 = [veteran_roast years])) \<and>
           commit_pattern_roasts request [] = Inr p2 \<and>
           (p2 = [] \<and> night_share_exceeds c_0_4 (analysis request) = Inr False \<or>
            p2 = [night_owl_roast] \<and> night_share_exceeds c_0_4 (analysis request) = Inr True) \<and>
           emoji_roasts request [] = Inr p3 \<and>
           (p3 = [] \<or> p3 = [emoji_overuse_roast] \<or> p3 = [emoji_drought_roast]) \<and>
           repository_roasts rt request [] = Inr p4 \<and>
           (p4 = [] \<or> (\<exists>n. p4 = [abandoned_repos_roast n])) \<and>
           follow_ratio_roasts request [] = Inr p5 \<and>
           (p5 = [] \<or> p5 = [follow_ratio_roast])"
proof -
  from assms obtain r1 r2 r3 r4 where
    a1: "account_age_roasts rt request [] = Inr r1" and
    a2: "commit_pattern_roasts request r1 = Inr r2" and
    a3: "emoji_roasts request r2 = Inr r3" and
    a4: "repository_roasts rt request r3 = Inr r4" and
    a5: "follow_ratio_roasts request r4 = Inr acc"
    unfolding rule_roasts_def by (auto split: sum.splits)
  from account_age_roasts_shape [OF a1] have
    b1: "r1 = [] \<or> r1 = [new_account_roast (login (user request))] \<or>
         (\<exists>years. r1 = [veteran_roast years])" by auto
  from commit_pattern_roasts_shape [OF a2] obtain p2 where
    b2: "r2 = r1 @ p2" "commit_pattern_roasts request [] = Inr p2"
      "p2 = [] \<and> night_share_exceeds c_0_4 (analysis request) = Inr False \<or>
       p2 = [night_owl_roast] \<and> night_share_exceeds c_0_4 (analysis request) = Inr True"
    by blast
  from emoji_roasts_shape [OF a3] obtain p3 where
    b3: "r3 = r2 @ p3" "emoji_roasts request [] = Inr p3"
      "p3 = [] \<or> p3 = [emoji_overuse_roast] \<or> p3 = [emoji_drought_roast]" by blast
  from repository_roasts_shape [OF a4] obtain p4 where
    b4: "r4 = r3 @ p4" "repository_roasts rt request [] = Inr p4"
      "p4 = [] \<or> (\<exists>n. p4 = [abandoned_repos_roast n])" by blast
  from follow_ratio_roasts_shape [OF a5] obtain p5 where
    b5: "acc = r4 @ p5" "follow_ratio_roasts request [] = Inr p5"
      "p5 = [] \<or> p5 = [follow_ratio_roast]" by blast
  have "acc = r1 @ p2 @ p3 @ p4 @ p5" using b2(1) b3(1) b4(1) b5(1) by simp
  with a1 b1 b2(2,3) b3(2,3) b4(2,3) b5(2,3) show ?thesis by blast
qed

lemma rule_roasts_length: "rule_roasts rt request = Inr acc \<Longrightarrow> length acc \<le> 5"
  by (drule rule_roasts_parts) auto

lemma take_6_generic_roasts:
  "length acc \<le> 5 \<Longrightarrow> take 6 (generic_roasts acc) = generic_roasts acc"
  by (simp add: generic_roasts_def)

lemma generate_fallback_roasts_eq:
  "generate_fallback_roasts rt request = Inr result \<longleftrightarrow>
     (\<exists>acc. rule_roasts rt request = Inr acc \<and> result = generic_roasts acc)"
  unfolding generate_fallback_roasts_def
  by (auto split: sum.splits simp: take_6_generic_roasts rule_roasts_length)

section \<open>When the blocks return\<close>

lemma numeric_py_gt: "numeric v \<Longrightarrow> numeric w \<Longrightarrow> \<exists>b. py_gt v w = Inr b"
  by (auto simp: numeric_def py_gt_numeric)

lemma numeric_py_lt: "numeric v \<Longrightarrow> numeric w \<Longrightarrow> \<exists>b. py_lt v w = Inr b"
  by (auto simp: numeric_def py_lt_numeric)

lemma small_number_floordiv:
  "small_number v \<Longrightarrow> \<exists>q. py_floordiv rt v 365 = Inr q \<and> small_number q"
proof (cases v)
  case (JInt n)
  assume "small_number v"
  then have "\<bar>n\<bar> < 2 ^ 1023" using JInt by (simp add: small_number_def)
  moreover have "\<bar>n div 365\<bar> \<le> \<bar>n\<bar>"
    by (simp add: abs_if zdiv_mono1 div_le_dividend) presburger
  ultimately show ?thesis using JInt by (simp add: py_floordiv_def small_number_def)
qed (simp_all add: small_number_def py_floordiv_def)

lemma account_age_roasts_returns:
  assumes "small_number (dict_get (userStats (analysis request)) ''accountAge'' (JInt 0))"
  shows "\<exists>ys. account_age_roasts rt request acc = Inr ys"
proof -
  let ?age = "dict_get (userStats (analysis request)) ''accountAge'' (JInt 0)"
  have num: "numeric ?age" using assms by (rule small_number_numeric)
  obtain b1 where b1: "py_lt ?age (JInt 365) = Inr b1"
    using numeric_py_lt [OF num, of "JInt 365"] by (auto simp: numeric_def)
  obtain b2 where b2: "py_gt ?age (JInt 3650) = Inr b2"
    using numeric_py_gt [OF num, of "JInt 3650"] by (auto simp: numeric_def)
  obtain q where q: "py_floordiv rt ?age 365 = Inr q" "small_number q"
    using small_number_floordiv [OF assms] by blast
  obtain y where y: "py_str rt q = Inr y"
    using py_str_printable [OF small_number_printable [OF q(2)]] by blast
  show ?thesis
    unfolding account_age_roasts_def Let_def by (simp add: b1 b2 q(1) y split: bool.splits)
qed

lemma commit_pattern_roasts_returns:
  "bounded_commit_counts (dict_get (commitPatterns (analysis request)) ''timeOfDay'' (JObj [])) \<Longrightarrow>
     \<exists>ys. commit_pattern_roasts request acc = Inr ys"
  using night_share_exceeds_counts [of "analysis request" c_0_4]
  by (auto simp: commit_pattern_roasts_def)

lemma emoji_roasts_returns:
  assumes "numeric (dict_get (emojiUsage (analysis request)) ''count'' (JInt 0))"
  shows "\<exists>ys. emoji_roasts request acc = Inr ys"
proof -
  obtain b where "py_gt (dict_get (emojiUsage (analysis request)) ''count'' (JInt 0)) (JInt 10) = Inr b"
    using numeric_py_gt [OF assms, of "JInt 10"] by (auto simp: numeric_def)
  then show ?thesis unfolding emoji_roasts_def Let_def by (simp split: bool.splits)
qed

lemma repository_roasts_returns:
  assumes "small_number (dict_get (repoAnalysis (analysis request)) ''abandonedRepos'' (JInt 0))"
  shows "\<exists>ys. repository_roasts rt request acc = Inr ys"
proof -
  let ?n = "dict_get (repoAnalysis (analysis request)) ''abandonedRepos'' (JInt 0)"
  obtain b where "py_gt ?n (JInt 0) = Inr b"
    using numeric_py_gt [OF small_number_numeric [OF assms], of "JInt 0"]
    by (auto simp: numeric_def)
  moreover obtain y where "py_str rt ?n = Inr y"
    using py_str_printable [OF small_number_printable [OF assms]] by blast
  ultimately show ?thesis
    unfolding repository_roasts_def Let_def by (simp split: bool.splits)
qed

lemma follow_ratio_roasts_returns:
  assumes "numeric (dict_get (userStats (analysis request)) ''followRatio'' (JInt 0))"
  shows "\<exists>ys. follow_ratio_roasts request acc = Inr ys"
proof -
  obtain b where
    "py_lt (dict_get (userStats (analysis request)) ''followRatio'' (JInt 0)) (JFloat c_0_5) = Inr b"
    using numeric_py_lt [OF assms, of "JFloat c_0_5"] by (auto simp: numeric_def)
  then show ?thesis unfolding follow_ratio_roasts_def Let_def by simp
qed

lemma rule_roasts_returns:
  assumes "fallback_values_typed (analysis request)"
  shows "\<exists>acc. rule_roasts rt request = Inr acc"
proof -
  from assms have
    t1: "small_number (dict_get (userStats (analysis request)) ''accountAge'' (JInt 0))" and
    t2: "bounded_commit_counts (dict_get (commitPatterns (analysis request)) ''timeOfDay'' (JObj []))" and
    t3: "numeric (dict_get (emojiUsage (analysis request)) ''count'' (JInt 0))" and
    t4: "small_number (dict_get (repoAnalysis (analysis request)) ''abandonedRepos'' (JInt 0))" and
    t5: "numeric (dict_get (userStats (analysis request)) ''followRatio'' (JInt 0))"
    by (simp_all add: fallback_values_typed_def)
  obtain r1 where r1: "account_age_roasts rt request [] = Inr r1"
    using account_age_roasts_returns [OF t1] by blast
  obtain r2 where r2: "commit_pattern_roasts request r1 = Inr r2"
    using commit_pattern_roasts_returns [OF t2] by blast
  obtain r3 where r3: "emoji_roasts request r2 = Inr r3"
    using emoji_roasts_returns [OF t3] by blast
  obtain r4 where r4: "repository_roasts rt request r3 = Inr r4"
    using repository_roasts_returns [OF t4] by blast
  obtain r5 where r5: "follow_ratio_roasts request r4 = Inr r5"
    using follow_ratio_roasts_returns [OF t5] by blast
  show ?thesis by (simp add: rule_roasts_def r1 r2 r3 r4 r5)
qed

section \<open>Counts that are all zero\<close>

lemma py_eq_zero_cases:
  "py_eq v (JInt 0) \<Longrightarrow>
     v = JBool False \<or> v = JInt 0 \<or> v = JFloat NZero \<or> (\<exists>e. v = JFloat (Fin 0 e))"
proof (cases v)
  case (JFloat f)
  assume "py_eq v (JInt 0)"
  with JFloat show ?thesis by (cases f) (auto simp: fin_eq_def Let_def)
qed (auto simp: fin_eq_def split: if_splits)

lemma round_double_zero: "round_double 0 e = Fin 0 0"
  by (simp add: round_double_def)

lemma int_to_float_zero: "int_to_float 0 = Inr (Fin 0 0)"
  by (simp add: int_to_float_def round_double_zero fl_inf_def)

lemma py_add_zero:
  assumes "py_eq v (JInt 0)" and "py_eq w (JInt 0)"
  shows "\<exists>s. py_add v w = Inr s \<and> py_eq s (JInt 0)"
  using py_eq_zero_cases [OF assms(1)] py_eq_zero_cases [OF assms(2)]
  by (auto simp: py_add_def int_to_float_zero round_double_zero fin_eq_def)

lemma py_sum_from_zero:
  "py_eq acc (JInt 0) \<Longrightarrow> \<forall>v \<in> set vs. py_eq v (JInt 0) \<Longrightarrow>
     \<exists>s. py_sum_from acc vs = Inr s \<and> py_eq s (JInt 0)"
proof (induction vs arbitrary: acc)
  case Nil
  then show ?case by simp
next
  case (Cons v vs)
  then obtain s where s: "py_add acc v = Inr s" "py_eq s (JInt 0)"
    using py_add_zero [of acc v] by auto
  then show ?case using Cons.IH [of s] Cons.prems by simp
qed

lemma fl_mul_zero: "fl_zero x \<Longrightarrow> fl_mul x c = NaN \<or> fl_zero (fl_mul x c)"
  by (cases x) (auto simp: fl_mul_def fl_inf_def)

lemma py_mul_float_zero:
  assumes "py_eq s (JInt 0)"
  shows "\<exists>b. py_mul_float s c = Inr (JFloat b) \<and> (b = NaN \<or> fl_zero b)"
proof -
  have z: "fl_mul (Fin 0 0) c = NaN \<or> fl_zero (fl_mul (Fin 0 0) c)"
    and nz: "fl_mul NZero c = NaN \<or> fl_zero (fl_mul NZero c)"
    and ze: "\<And>e. fl_mul (Fin 0 e) c = NaN \<or> fl_zero (fl_mul (Fin 0 e) c)"
    by (simp_all add: fl_mul_zero)
  from py_eq_zero_cases [OF assms] show ?thesis
    using z nz ze by (auto simp: py_mul_float_def int_to_float_zero)
qed

lemma py_gt_zero:
  assumes "py_eq n (JInt 0)" and "b = NaN \<or> fl_zero b"
  shows "py_gt n (JFloat b) = Inr False"
proof -
  have "b = NaN \<or> b = NZero \<or> (\<exists>e. b = Fin 0 e)"
    using assms(2) by (cases b) auto
  with py_eq_zero_cases [OF assms(1)] show ?thesis
    by (auto simp: fin_less_def)
qed

lemma night_share_zero:
  assumes "dict_get (commitPatterns a) ''timeOfDay'' (JObj []) = JObj commit_times"
      and "\<forall>v \<in> set (map snd commit_times). py_eq v (JInt 0)"
  shows "night_share_exceeds c a = Inr False"
proof -
  obtain s where s: "py_sum (map snd commit_times) = Inr s" "py_eq s (JInt 0)"
    using py_sum_from_zero [of "JInt 0" "map snd commit_times"] assms(2)
    by (auto simp: py_sum_def fin_eq_def)
  obtain b where b: "py_mul_float s c = Inr (JFloat b)" "b = NaN \<or> fl_zero b"
    using py_mul_float_zero [OF s(2)] by blast
  have "py_eq (dict_get commit_times ''night'' (JInt 0)) (JInt 0)"
    using dict_get_cases [of commit_times "''night''" "JInt 0"] assms(2)
    by (auto simp: fin_eq_def)
  then have "py_gt (dict_get commit_times ''night'' (JInt 0)) (JFloat b) = Inr False"
    using b(2) by (rule py_gt_zero)
  then show ?thesis by (simp add: night_share_exceeds_def assms(1) s(1) b(1) Let_def)
qed

section \<open>The steps of \<^verbatim>\<open>analyze_roast_potential\<close>\<close>

lemma questionable_factor_shape:
  "\<exists>p. questionable_factor a t = (fst t + sum_list (map weight_of p), snd t @ p) \<and>
       (p = [] \<or> p = [''questionable_commits''])"
  by (simp add: questionable_factor_def add_factor_def weight_of_def conj_disj_distribL
      ex_disj_distrib)

lemma emoji_factor_shape:
  "emoji_factor a t = Inr t' \<Longrightarrow>
     \<exists>p. t' = (fst t + sum_list (map weight_of p), snd t @ p) \<and>
         (p = [''emoji_overuse''] \<and>
            py_gt (dict_get (emojiUsage a) ''count'' (JInt 0)) (JInt 15) = Inr True \<or>
          p = [''emoji_drought''] \<and>
            py_gt (dict_get (emojiUsage a) ''count'' (JInt 0)) (JInt 15) = Inr False \<and>
            py_eq (dict_get (emojiUsage a) ''count'' (JInt 0)) (JInt 0) \<or>
          p = [] \<and>
            py_gt (dict_get (emojiUsage a) ''count'' (JInt 0)) (JInt 15) = Inr False \<and>
            \<not> py_eq (dict_get (emojiUsage a) ''count'' (JInt 0)) (JInt 0))"
  unfolding emoji_factor_def
  by (auto simp: add_factor_def weight_of_def conj_disj_distribL ex_disj_distrib
      split: sum.splits bool.splits if_splits)

lemma abandonment_factor_shape:
  "abandonment_factor a t = Inr t' \<Longrightarrow>
     \<exists>p. t' = (fst t + sum_list (map weight_of p), snd t @ p) \<and>
         (p = [] \<or> p = [''repo_abandonment''])"
  unfolding abandonment_factor_def
  by (auto simp: add_factor_def weight_of_def conj_disj_distribL ex_disj_distrib
      split: sum.splits if_splits)

lemma social_factor_shape:
  "social_factor a t = Inr t' \<Longrightarrow>
     \<exists>p. t' = (fst t + sum_list (map weight_of p), snd t @ p) \<and>
         (p = [] \<and> py_lt (dict_get (userStats a) ''followRatio'' (JInt 1)) (JFloat c_0_3) = Inr False \<or>
          p = [''social_awkwardness''] \<and>
            py_lt (dict_get (userStats a) ''followRatio'' (JInt 1)) (JFloat c_0_3) = Inr True)"
  unfolding social_factor_def
  by (auto simp: add_factor_def weight_of_def conj_disj_distribL ex_disj_distrib
      split: sum.splits if_splits)

lemma night_owl_factor_shape:
  "night_owl_factor a t = Inr t' \<Longrightarrow>
     \<exists>p. t' = (fst t + sum_list (map weight_of p), snd t @ p) \<and>
         (p = [] \<and> night_share_exceeds c_0_5 a = Inr False \<or>
          p = [''night_owl_coding''] \<and> night_share_exceeds c_0_5 a = Inr True)"
  unfolding night_owl_factor_def
  by (auto simp: add_factor_def weight_of_def conj_disj_distribL ex_disj_distrib
      split: sum.splits if_splits)

lemma lazy_factor_shape:
  "lazy_factor a t = Inr t' \<Longrightarrow>
     \<exists>p. t' = (fst t + sum_list (map weight_of p), snd t @ p) \<and>
         (p = [] \<or> p = [''lazy_commit_messages''])"
  unfolding lazy_factor_def
  by (auto simp: add_factor_def weight_of_def conj_disj_distribL ex_disj_distrib
      split: sum.splits if_splits)

text \<open>The tally is the contributions of the six rules, in that order.\<close>

lemma roast_tally_parts:
  assumes "roast_tally a = Inr t"
  shows "\<exists>p1 p2 p3 p4 p5 p6.
           snd t = p1 @ p2 @ p3 @ p4 @ p5 @ p6 \<and>
           fst t = sum_list (map weight_of (p1 @ p2 @ p3 @ p4 @ p5 @ p6)) \<and>
           (p1 = [] \<or> p1 = [''questionable_commits'']) \<and>
           (p2 = [''emoji_overuse''] \<and>
              py_gt (dict_get (emojiUsage a) ''count'' (JInt 0)) (JInt 15) = Inr True \<or>
            p2 = [''emoji_drought''] \<and>
              py_gt (dict_get (emojiUsage a) ''count'' (JInt 0)) (JInt 15) = Inr False \<and>
              py_eq (dict_get (emojiUsage a) ''count'' (JInt 0)) (JInt 0) \<or>
            p2 = [] \<and>
              py_gt (dict_get (emojiUsage a) ''count'' (JInt 0)) (JInt 15) = Inr False \<and>
              \<not> py_eq (dict_get (emojiUsage a) ''count'' (JInt 0)) (JInt 0)) \<and>
           (p3 = [] \<or> p3 = [''repo_abandonment'']) \<and>
           (p4 = [] \<and> py_lt (dict_get (userStats a) ''followRatio'' (JInt 1)) (JFloat c_0_3) = Inr False \<or>
            p4 = [''social_awkwardness''] \<and>
              py_lt (dict_get (userStats a) ''followRatio'' (JInt 1)) (JFloat c_0_3) = Inr True) \<and>
           (p5 = [] \<and> night_share_exceeds c_0_5 a = Inr False \<or>
            p5 = [''night_owl_coding''] \<and> night_share_exceeds c_0_5 a = Inr True) \<and>
           (p6 = [] \<or> p6 = [''lazy_commit_messages''])"
proof -
  from assms obtain t2 t3 t4 t5 where
    a2: "emoji_factor a (questionable_factor a (0, [])) = Inr t2" and
    a3: "abandonment_factor a t2 = Inr t3" and
    a4: "social_factor a t3 = Inr t4" and
    a5: "night_owl_factor a t4 = Inr t5" and
    a6: "lazy_factor a t5 = Inr t"
    unfolding roast_tally_def by (auto split: sum.splits)
  obtain p1 where
    b1: "questionable_factor a (0, []) = (sum_list (map weight_of p1), p1)"
      "p1 = [] \<or> p1 = [''questionable_commits'']"
    using questionable_factor_shape [of a "(0, [])"] by auto
  from emoji_factor_shape [OF a2] obtain p2 where
    b2: "t2 = (sum_list (map weight_of p1) + sum_list (map weight_of p2), p1 @ p2)"
      "p2 = [''emoji_overuse''] \<and>
         py_gt (dict_get (emojiUsage a) ''count'' (JInt 0)) (JInt 15) = Inr True \<or>
       p2 = [''emoji_drought''] \<and>
         py_gt (dict_get (emojiUsage a) ''count'' (JInt 0)) (JInt 15) = Inr False \<and>
         py_eq (dict_get (emojiUsage a) ''count'' (JInt 0)) (JInt 0) \<or>
       p2 = [] \<and>
         py_gt (dict_get (emojiUsage a) ''count'' (JInt 0)) (JInt 15) = Inr False \<and>
         \<not> py_eq (dict_get (emojiUsage a) ''count'' (JInt 0)) (JInt 0)"
    unfolding b1(1) by auto
  from abandonment_factor_shape [OF a3] obtain p3 where
    b3: "t3 = (fst t2 + sum_list (map weight_of p3), snd t2 @ p3)"
      "p3 = [] \<or> p3 = [''repo_abandonment'']" by blast
  from social_factor_shape [OF a4] obtain p4 where
    b4: "t4 = (fst t3 + sum_list (map weight_of p4), snd t3 @ p4)"
      "p4 = [] \<and> py_lt (dict_get (userStats a) ''followRatio'' (JInt 1)) (JFloat c_0_3) = Inr False \<or>
       p4 = [''social_awkwardness''] \<and>
         py_lt (dict_get (userStats a) ''followRatio'' (JInt 1)) (JFloat c_0_3) = Inr True"
    by blast
  from night_owl_factor_shape [OF a5] obtain p5 where
    b5: "t5 = (fst t4 + sum_list (map weight_of p5), snd t4 @ p5)"
      "p5 = [] \<and> night_share_exceeds c_0_5 a = Inr False \<or>
       p5 = [''night_owl_coding''] \<and> night_share_exceeds c_0_5 a = Inr True" by blast
  from lazy_factor_shape [OF a6] obtain p6 where
    b6: "t = (fst t5 + sum_list (map weight_of p6), snd t5 @ p6)"
      "p6 = [] \<or> p6 = [''lazy_commit_messages'']" by blast
  have s: "snd t = p1 @ p2 @ p3 @ p4 @ p5 @ p6"
    by (simp add: b2(1) b3(1) b4(1) b5(1) b6(1))
  have f: "fst t = sum_list (map weight_of (p1 @ p2 @ p3 @ p4 @ p5 @ p6))"
    by (simp add: b2(1) b3(1) b4(1) b5(1) b6(1))
  from s f b1(2) b2(2) b3(2) b4(2) b5(2) b6(2) show ?thesis by blast
qed

lemma roast_tally_bounds:
  assumes "roast_tally a = Inr t"
  shows "0 \<le> fst t \<and> fst t \<le> 105 \<and> fst t = sum_list (map weight_of (snd t))"
proof -
  from roast_tally_parts [OF assms] obtain p1 p2 p3 p4 p5 p6 where
    s: "snd t = p1 @ p2 @ p3 @ p4 @ p5 @ p6" and
    f: "fst t = sum_list (map weight_of (p1 @ p2 @ p3 @ p4 @ p5 @ p6))" and
    p1: "p1 = [] \<or> p1 = [''questionable_commits'']" and
    p2: "p2 = [] \<or> p2 = [''emoji_overuse''] \<or> p2 = [''emoji_drought'']" and
    p3: "p3 = [] \<or> p3 = [''repo_abandonment'']" and
    p4: "p4 = [] \<or> p4 = [''social_awkwardness'']" and
    p5: "p5 = [] \<or> p5 = [''night_owl_coding'']" and
    p6: "p6 = [] \<or> p6 = [''lazy_commit_messages'']"
    by blast
  have w1: "0 \<le> sum_list (map weight_of p1) \<and> sum_list (map weight_of p1) \<le> 20"
    using p1 by (auto simp: weight_of_def)
  have w2: "0 \<le> sum_list (map weight_of p2) \<and> sum_list (map weight_of p2) \<le> 15"
    using p2 by (auto simp: weight_of_def)
  have w3: "0 \<le> sum_list (map weight_of p3) \<and> sum_list (map weight_of p3) \<le> 25"
    using p3 by (auto simp: weight_of_def)
  have w4: "0 \<le> sum_list (map weight_of p4) \<and> sum_list (map weight_of p4) \<le> 15"
    using p4 by (auto simp: weight_of_def)
  have w5: "0 \<le> sum_list (map weight_of p5) \<and> sum_list (map weight_of p5) \<le> 20"
    using p5 by (auto simp: weight_of_def)
  have w6: "0 \<le> sum_list (map weight_of p6) \<and> sum_list (map weight_of p6) \<le> 10"
    using p6 by (auto simp: weight_of_def)
  have "fst t = sum_list (map weight_of p1) + sum_list (map weight_of p2) +
      sum_list (map weight_of p3) + sum_list (map weight_of p4) +
      sum_list (map weight_of p5) + sum_list (map weight_of p6)"
    by (simp add: f)
  with w1 w2 w3 w4 w5 w6 s f show ?thesis by simp
qed

lemma roast_tally_returns:
  assumes "scoring_values_typed a"
  shows "\<exists>t. roast_tally a = Inr t"
proof -
  from assms have
    t1: "numeric (dict_get (emojiUsage a) ''count'' (JInt 0))" and
    t2: "numeric (dict_get (repoAnalysis a) ''abandonedRepos'' (JInt 0))" and
    t3: "numeric (dict_get (userStats a) ''followRatio'' (JInt 1))" and
    t4: "bounded_commit_counts (dict_get (commitPatterns a) ''timeOfDay'' (JObj []))" and
    t5: "numeric (dict_get (commitLanguage a) ''averageLength'' (JInt 0))"
    by (simp_all add: scoring_values_typed_def)
  obtain b1 where b1: "py_gt (dict_get (emojiUsage a) ''count'' (JInt 0)) (JInt 15) = Inr b1"
    using numeric_py_gt [OF t1, of "JInt 15"] by (auto simp: numeric_def)
  obtain b2 where b2: "py_gt (dict_get (repoAnalysis a) ''abandonedRepos'' (JInt 0)) (JInt 2) = Inr b2"
    using numeric_py_gt [OF t2, of "JInt 2"] by (auto simp: numeric_def)
  obtain b3 where b3: "py_lt (dict_get (userStats a) ''followRatio'' (JInt 1)) (JFloat c_0_3) = Inr b3"
    using numeric_py_lt [OF t3, of "JFloat c_0_3"] by (auto simp: numeric_def)
  obtain b4 where b4: "night_share_exceeds c_0_5 a = Inr b4"
    using night_share_exceeds_counts [OF t4] by blast
  obtain b5 where b5: "py_lt (dict_get (commitLanguage a) ''averageLength'' (JInt 0)) (JInt 10) = Inr b5"
    using numeric_py_lt [OF t5, of "JInt 10"] by (auto simp: numeric_def)
  show ?thesis
    by (simp add: roast_tally_def emoji_factor_def abandonment_factor_def social_factor_def
        night_owl_factor_def lazy_factor_def b1 b2 b3 b4 b5 split: bool.splits)
qed

lemma analyze_roast_potential_eq:
  "analyze_roast_potential request = Inr res \<Longrightarrow>
     \<exists>t. roast_tally (analysis request) = Inr t \<and> roast_score res = fst t \<and>
         roast_factors res = snd t \<and> roastability_level res = level_of (fst t)"
  unfolding analyze_roast_potential_def by (auto split: sum.splits)

section \<open>The length and the order of the fallback roasts\<close>

text \<open>
  Claim C2, as the code has it. For every request on which \<^verbatim>\<open>generate_fallback_roasts\<close>
  returns, the result has between 1 and 6 strings and is the first six of: what the
  account-age block, the commit-pattern block, the emoji block, the repository block and
  the follow-ratio block append, in that order, then the generic roasts if any. The
  function returns at least on every request where \<^verbatim>\<open>accountAge\<close> and
  \<^verbatim>\<open>abandonedRepos\<close> are absent or a float, a bool or an int below \<open>2 ^ 1023\<close> in
  magnitude, \<^verbatim>\<open>count\<close> and \<^verbatim>\<open>followRatio\<close> are absent or numbers, and
  \<^verbatim>\<open>timeOfDay\<close> is absent or a mapping of non-negative ints whose sum is below
  \<open>2 ^ 1023\<close>. It does not return on every request that the validation layer accepts.
\<close>

theorem fallback_roasts_count_and_order:
  "(fallback_values_typed (analysis request) \<longrightarrow>
      (\<exists>result. generate_fallback_roasts rt request = Inr result)) \<and>
   (\<forall>result. generate_fallback_roasts rt request = Inr result \<longrightarrow>
      1 \<le> length result \<and> length result \<le> 6 \<and>
      (\<exists>p1 p2 p3 p4 p5 fillers.
         result = take 6 (p1 @ p2 @ p3 @ p4 @ p5 @ fillers) \<and>
         account_age_roasts rt request [] = Inr p1 \<and>
         commit_pattern_roasts request [] = Inr p2 \<and>
         emoji_roasts request [] = Inr p3 \<and>
         repository_roasts rt request [] = Inr p4 \<and>
         follow_ratio_roasts request [] = Inr p5 \<and>
         (fillers = [] \<or> fillers = [generic_roast_1, generic_roast_2, generic_roast_3])))"
proof (intro conjI impI allI)
  assume "fallback_values_typed (analysis request)"
  then obtain rules where "rule_roasts rt request = Inr rules"
    using rule_roasts_returns by blast
  then show "\<exists>result. generate_fallback_roasts rt request = Inr result"
    by (simp add: generate_fallback_roasts_def)
next
  fix result
  assume "generate_fallback_roasts rt request = Inr result"
  then obtain rules where
    rules: "rule_roasts rt request = Inr rules" and
    result: "result = generic_roasts rules"
    by (auto simp: generate_fallback_roasts_eq)
  have len: "length rules \<le> 5" using rules by (rule rule_roasts_length)
  then show "1 \<le> length result" and "length result \<le> 6"
    by (auto simp: result generic_roasts_def)
  from rule_roasts_parts [OF rules] obtain p1 p2 p3 p4 p5 where
    parts: "rules = p1 @ p2 @ p3 @ p4 @ p5"
      "account_age_roasts rt request [] = Inr p1"
      "commit_pattern_roasts request [] = Inr p2"
      "emoji_roasts request [] = Inr p3"
      "repository_roasts rt request [] = Inr p4"
      "follow_ratio_roasts request [] = Inr p5"
    by blast
  define fillers where
    "fillers = (if length rules < 3 then [generic_roast_1, generic_roast_2, generic_roast_3]
                else [])"
  have "result = take 6 (p1 @ p2 @ p3 @ p4 @ p5 @ fillers)"
    using len parts(1) by (auto simp: result generic_roasts_def fillers_def)
  moreover have "fillers = [] \<or> fillers = [generic_roast_1, generic_roast_2, generic_roast_3]"
    by (simp add: fillers_def)
  ultimately show "\<exists>p1 p2 p3 p4 p5 fillers.
         result = take 6 (p1 @ p2 @ p3 @ p4 @ p5 @ fillers) \<and>
         account_age_roasts rt request [] = Inr p1 \<and>
         commit_pattern_roasts request [] = Inr p2 \<and>
         emoji_roasts request [] = Inr p3 \<and>
         repository_roasts rt request [] = Inr p4 \<and>
         follow_ratio_roasts request [] = Inr p5 \<and>
         (fillers = [] \<or> fillers = [generic_roast_1, generic_roast_2, generic_roast_3])"
    using parts(2-6) by blast
qed

lemma scenario_a_typed: "fallback_values_typed (analysis (request_with scenario_a))"
  by code_simp

theorem fallback_roasts_count_and_order_witness:
  "fallback_values_typed (analysis (request_with scenario_a)) \<and>
   (\<exists>result p1 p2 p3 p4 p5 fillers.
      generate_fallback_roasts plain_runtime (request_with scenario_a) = Inr result \<and>
      1 \<le> length result \<and> length result \<le> 6 \<and>
      result = take 6 (p1 @ p2 @ p3 @ p4 @ p5 @ fillers) \<and>
      account_age_roasts plain_runtime (request_with scenario_a) [] = Inr p1 \<and>
      commit_pattern_roasts (request_with scenario_a) [] = Inr p2 \<and>
      emoji_roasts (request_with scenario_a) [] = Inr p3 \<and>
      repository_roasts plain_runtime (request_with scenario_a) [] = Inr p4 \<and>
      follow_ratio_roasts (request_with scenario_a) [] = Inr p5)"
proof -
  from fallback_roasts_count_and_order [of "request_with scenario_a" plain_runtime]
    scenario_a_typed
  obtain result where
    r: "generate_fallback_roasts plain_runtime (request_with scenario_a) = Inr result"
    by blast
  with fallback_roasts_count_and_order [of "request_with scenario_a" plain_runtime]
    scenario_a_typed
  show ?thesis by blast
qed

text \<open>
  The claim as stated, "for every structurally valid request it returns between 1 and 6
  strings", fails on a request whose \<^verbatim>\<open>followRatio\<close> is \<^verbatim>\<open>null\<close>: the comparison
  \<^verbatim>\<open>follow_ratio < 0.5\<close> raises TypeError and nothing is returned.
\<close>

theorem fallback_raises_on_null_follow_ratio:
  "generate_fallback_roasts plain_runtime (request_with null_follow_ratio) = Inl TypeError"
  by code_simp

text \<open>
  Claim C10, as the code has it. For every request on which \<^verbatim>\<open>generate_fallback_roasts\<close>
  returns, the result has between 3 and 6 strings: the rules give at most five roasts;
  when they give fewer than three, the result is these followed by exactly the three
  generic roasts, otherwise it is the roasts of the rules; the cut to six removes nothing.
  The function returns at least on every request where \<^verbatim>\<open>accountAge\<close> and
  \<^verbatim>\<open>abandonedRepos\<close> are absent or a float, a bool or an int below \<open>2 ^ 1023\<close> in
  magnitude, \<^verbatim>\<open>count\<close> and \<^verbatim>\<open>followRatio\<close> are absent or numbers, and
  \<^verbatim>\<open>timeOfDay\<close> is absent or a mapping of non-negative ints whose sum is below
  \<open>2 ^ 1023\<close>. It does not return on every request that the validation layer accepts.
\<close>

theorem fallback_roasts_at_least_three:
  "(fallback_values_typed (analysis request) \<longrightarrow>
      (\<exists>result. generate_fallback_roasts rt request = Inr result)) \<and>
   (\<forall>result. generate_fallback_roasts rt request = Inr result \<longrightarrow>
      3 \<le> length result \<and> length result \<le> 6 \<and>
      (\<exists>rules. rule_roasts rt request = Inr rules \<and> length rules \<le> 5 \<and>
         (length rules < 3 \<longrightarrow>
            result = rules @ [generic_roast_1, generic_roast_2, generic_roast_3]) \<and>
         (3 \<le> length rules \<longrightarrow> result = rules)))"
proof (intro conjI impI allI)
  assume "fallback_values_typed (analysis request)"
  then obtain rules where "rule_roasts rt request = Inr rules"
    using rule_roasts_returns by blast
  then show "\<exists>result. generate_fallback_roasts rt request = Inr result"
    by (simp add: generate_fallback_roasts_def)
next
  fix result
  assume "generate_fallback_roasts rt request = Inr result"
  then obtain rules where
    rules: "rule_roasts rt request = Inr rules" and
    result: "result = generic_roasts rules"
    by (auto simp: generate_fallback_roasts_eq)
  have len: "length rules \<le> 5" using rules by (rule rule_roasts_length)
  then show "3 \<le> length result" and "length result \<le> 6"
    by (auto simp: result generic_roasts_def)
  show "\<exists>rules. rule_roasts rt request = Inr rules \<and> length rules \<le> 5 \<and>
         (length rules < 3 \<longrightarrow>
            result = rules @ [generic_roast_1, generic_roast_2, generic_roast_3]) \<and>
         (3 \<le> length rules \<longrightarrow> result = rules)"
    using rules len by (auto simp: result generic_roasts_def)
qed

lemma quiet_profile_typed: "fallback_values_typed (analysis (request_with quiet_profile))"
  by code_simp

lemma quiet_profile_rules: "rule_roasts plain_runtime (request_with quiet_profile) = Inr []"
  by code_simp

theorem fallback_roasts_at_least_three_witness:
  "fallback_values_typed (analysis (request_with quiet_profile)) \<and>
   rule_roasts plain_runtime (request_with quiet_profile) = Inr [] \<and>
   generate_fallback_roasts plain_runtime (request_with quiet_profile) =
     Inr ([] @ [generic_roast_1, generic_roast_2, generic_roast_3]) \<and>
   length ([] @ [generic_roast_1, generic_roast_2, generic_roast_3]) = 3"
proof -
  from fallback_roasts_at_least_three [of "request_with quiet_profile" plain_runtime]
    quiet_profile_typed
  obtain result where
    r: "generate_fallback_roasts plain_runtime (request_with quiet_profile) = Inr result"
    by blast
  with fallback_roasts_at_least_three [of "request_with quiet_profile" plain_runtime]
  obtain rules where
    "rule_roasts plain_runtime (request_with quiet_profile) = Inr rules"
    "length rules < 3 \<longrightarrow> result = rules @ [generic_roast_1, generic_roast_2, generic_roast_3]"
    by blast
  then have "result = [] @ [generic_roast_1, generic_roast_2, generic_roast_3]"
    using quiet_profile_rules by simp
  with r quiet_profile_typed quiet_profile_rules show ?thesis by simp
qed

text \<open>
  The claim as stated, "at least 3 strings for every structurally valid request", fails on
  a request whose emoji count arrives as the text \<^verbatim>\<open>"3"\<close>: the comparison
  \<^verbatim>\<open>emoji_count > 10\<close> raises TypeError.
\<close>

theorem fallback_raises_on_text_emoji_count:
  "generate_fallback_roasts plain_runtime (request_with text_emoji_count) = Inl TypeError"
  by code_simp

section \<open>The roastability score\<close>

text \<open>
  Claim C3, as the code has it. For every request on which \<^verbatim>\<open>analyze_roast_potential\<close>
  returns, the score is an integer between 0 and 105, the sum of the weights of the factors
  that fired, and the level is \<^verbatim>\<open>highly_roastable\<close> from 60 on, \<^verbatim>\<open>moderately_roastable\<close>
  from 30 to 59 and \<^verbatim>\<open>minimally_roastable\<close> below 30; the tier test gives
  \<^verbatim>\<open>moderately_roastable\<close> at 59 and at 30, \<^verbatim>\<open>highly_roastable\<close> at 60 and
  \<^verbatim>\<open>minimally_roastable\<close> at 29. The endpoint returns at least on every request where
  \<^verbatim>\<open>count\<close>, \<^verbatim>\<open>abandonedRepos\<close>, \<^verbatim>\<open>followRatio\<close> and \<^verbatim>\<open>averageLength\<close> are
  absent or numbers and \<^verbatim>\<open>timeOfDay\<close> is absent or a mapping of non-negative ints
  whose sum is below \<open>2 ^ 1023\<close>. It does not return on every request that the
  validation layer accepts.
\<close>

theorem roast_score_range_and_level:
  "(scoring_values_typed (analysis request) \<longrightarrow>
      (\<exists>res. analyze_roast_potential request = Inr res)) \<and>
   (\<forall>res. analyze_roast_potential request = Inr res \<longrightarrow>
      0 \<le> roast_score res \<and> roast_score res \<le> 105 \<and>
      roast_score res = sum_list (map weight_of (roast_factors res)) \<and>
      (60 \<le> roast_score res \<longrightarrow> roastability_level res = ''highly_roastable'') \<and>
      (30 \<le> roast_score res \<and> roast_score res < 60 \<longrightarrow>
         roastability_level res = ''moderately_roastable'') \<and>
      (roast_score res < 30 \<longrightarrow> roastability_level res = ''minimally_roastable'')) \<and>
   level_of 59 = ''moderately_roastable'' \<and> level_of 60 = ''highly_roastable'' \<and>
   level_of 29 = ''minimally_roastable'' \<and> level_of 30 = ''moderately_roastable''"
proof (intro conjI impI allI)
  assume "scoring_values_typed (analysis request)"
  then obtain t where "roast_tally (analysis request) = Inr t"
    using roast_tally_returns by blast
  then show "\<exists>res. analyze_roast_potential request = Inr res"
    by (simp add: analyze_roast_potential_def)
next
  fix res
  assume ret: "analyze_roast_potential request = Inr res"
  from analyze_roast_potential_eq [OF ret] obtain t where
    t: "roast_tally (analysis request) = Inr t" and
    res: "roast_score res = fst t" "roast_factors res = snd t"
      "roastability_level res = level_of (fst t)"
    by blast
  from roast_tally_bounds [OF t]
  show "0 \<le> roast_score res" and "roast_score res \<le> 105"
    and "roast_score res = sum_list (map weight_of (roast_factors res))"
    by (simp_all add: res)
  show "roastability_level res = ''highly_roastable''" if "60 \<le> roast_score res"
    using that by (simp add: res level_of_def)
  show "roastability_level res = ''moderately_roastable''"
    if "30 \<le> roast_score res \<and> roast_score res < 60"
    using that by (simp add: res level_of_def)
  show "roastability_level res = ''minimally_roastable''" if "roast_score res < 30"
    using that by (simp add: res level_of_def)
qed (simp_all add: level_of_def)

lemma scenario_a_scoring_typed: "scoring_values_typed (analysis (request_with scenario_a))"
  by code_simp

lemma scenario_a_score:
  "map_sum id roast_score (analyze_roast_potential (request_with scenario_a)) = Inr 45"
  by code_simp

theorem roast_score_range_and_level_witness:
  "scoring_values_typed (analysis (request_with scenario_a)) \<and>
   (\<exists>res. analyze_roast_potential (request_with scenario_a) = Inr res \<and>
      roast_score res = 45 \<and>
      roast_score res = sum_list (map weight_of (roast_factors res)) \<and>
      roastability_level res = ''moderately_roastable'')"
proof -
  from roast_score_range_and_level [of "request_with scenario_a"] scenario_a_scoring_typed
  obtain res where
    res: "analyze_roast_potential (request_with scenario_a) = Inr res" by blast
  have s: "roast_score res = 45" using scenario_a_score by (simp add: res)
  from roast_score_range_and_level [of "request_with scenario_a"] res s
  have "roast_score res = sum_list (map weight_of (roast_factors res))"
    and "roastability_level res = ''moderately_roastable''"
    by auto
  with res s scenario_a_scoring_typed show ?thesis by blast
qed

text \<open>
  The claim as stated, "for every structurally valid request the score returned is ...",
  fails on a request whose \<^verbatim>\<open>averageLength\<close> is \<^verbatim>\<open>null\<close>: the comparison with 10 raises
  TypeError and no score is returned.
\<close>

theorem scorer_raises_on_null_average_length:
  "analyze_roast_potential (request_with null_average_length) = Inl TypeError"
  by code_simp

section \<open>The night-owl rule on counts that are all zero\<close>

lemma generic_roasts_set:
  "set (generic_roasts acc) \<subseteq> set acc \<union> {generic_roast_1, generic_roast_2, generic_roast_3}"
  by (auto simp: generic_roasts_def)

text \<open>
  Claim C4. When \<^verbatim>\<open>timeOfDay\<close> is absent (the default is the empty mapping) or a mapping
  all of whose values equal 0, the night-owl condition evaluates to false without an
  error, with the factor 0.4 and with the factor 0.5: the product of the sum with the
  factor is a zero, and no division takes place. The commit-pattern block leaves the
  roasts as they are and the scorer's night-owl step leaves the tally as it is; no result
  of \<^verbatim>\<open>generate_fallback_roasts\<close> contains the night-owl roast and no result of
  \<^verbatim>\<open>analyze_roast_potential\<close> the factor \<^verbatim>\<open>night_owl_coding\<close>.
\<close>

theorem night_owl_silent_on_zero_counts:
  assumes "dict_get (commitPatterns (analysis request)) ''timeOfDay'' (JObj []) = JObj commit_times"
      and "\<forall>v \<in> set (map snd commit_times). py_eq v (JInt 0)"
  shows "night_share_exceeds c_0_4 (analysis request) = Inr False \<and>
         night_share_exceeds c_0_5 (analysis request) = Inr False \<and>
         commit_pattern_roasts request acc = Inr acc \<and>
         night_owl_factor (analysis request) t = Inr t \<and>
         (\<forall>result. generate_fallback_roasts rt request = Inr result \<longrightarrow>
            night_owl_roast \<notin> set result) \<and>
         (\<forall>res. analyze_roast_potential request = Inr res \<longrightarrow>
            ''night_owl_coding'' \<notin> set (roast_factors res))"
proof (intro conjI allI impI)
  show n4: "night_share_exceeds c_0_4 (analysis request) = Inr False"
    using assms by (rule night_share_zero)
  show n5: "night_share_exceeds c_0_5 (analysis request) = Inr False"
    using assms by (rule night_share_zero)
  show "commit_pattern_roasts request acc = Inr acc"
    by (simp add: commit_pattern_roasts_def n4)
  show "night_owl_factor (analysis request) t = Inr t"
    by (simp add: night_owl_factor_def n5)
  show "night_owl_roast \<notin> set result"
    if ret: "generate_fallback_roasts rt request = Inr result" for result
  proof -
    from ret obtain rules where
      rules: "rule_roasts rt request = Inr rules" and
      result: "result = generic_roasts rules"
      by (auto simp: generate_fallback_roasts_eq)
    from rule_roasts_parts [OF rules] obtain p1 p2 p3 p4 p5 where
      parts: "rules = p1 @ p2 @ p3 @ p4 @ p5" and
      p1: "p1 = [] \<or> p1 = [new_account_roast (login (user request))] \<or>
           (\<exists>years. p1 = [veteran_roast years])" and
      p2: "p2 = [] \<and> night_share_exceeds c_0_4 (analysis request) = Inr False \<or>
           p2 = [night_owl_roast] \<and> night_share_exceeds c_0_4 (analysis request) = Inr True" and
      p3: "p3 = [] \<or> p3 = [emoji_overuse_roast] \<or> p3 = [emoji_drought_roast]" and
      p4: "p4 = [] \<or> (\<exists>n. p4 = [abandoned_repos_roast n])" and
      p5: "p5 = [] \<or> p5 = [follow_ratio_roast]"
      by blast
    have "p2 = []" using p2 n4 by auto
    moreover have "night_owl_roast \<notin> set p1"
      using p1 by (auto simp: night_owl_roast_distinct)
    moreover have "night_owl_roast \<notin> set p3"
      using p3 by (auto simp: night_owl_roast_distinct)
    moreover have "night_owl_roast \<notin> set p4"
      using p4 by (auto simp: night_owl_roast_distinct)
    moreover have "night_owl_roast \<notin> set p5"
      using p5 by (auto simp: night_owl_roast_distinct)
    ultimately have "night_owl_roast \<notin> set rules" by (simp add: parts)
    then show ?thesis
      using generic_roasts_set [of rules] by (auto simp: result night_owl_roast_distinct)
  qed
  show "''night_owl_coding'' \<notin> set (roast_factors res)"
    if ret: "analyze_roast_potential request = Inr res" for res
  proof -
    from analyze_roast_potential_eq [OF ret] obtain tl where
      tl: "roast_tally (analysis request) = Inr tl" and res: "roast_factors res = snd tl"
      by blast
    from roast_tally_parts [OF tl] obtain p1 p2 p3 p4 p5 p6 where
      s: "snd tl = p1 @ p2 @ p3 @ p4 @ p5 @ p6" and
      p1: "p1 = [] \<or> p1 = [''questionable_commits'']" and
      p2: "p2 = [] \<or> p2 = [''emoji_overuse''] \<or> p2 = [''emoji_drought'']" and
      p3: "p3 = [] \<or> p3 = [''repo_abandonment'']" and
      p4: "p4 = [] \<or> p4 = [''social_awkwardness'']" and
      p5: "p5 = [] \<and> night_share_exceeds c_0_5 (analysis request) = Inr False \<or>
           p5 = [''night_owl_coding''] \<and> night_share_exceeds c_0_5 (analysis request) = Inr True" and
      p6: "p6 = [] \<or> p6 = [''lazy_commit_messages'']"
      by blast
    have "p5 = []" using p5 n5 by auto
    then show ?thesis using p1 p2 p3 p4 p6 by (auto simp: res s)
  qed
qed

theorem night_owl_silent_on_zero_counts_witness:
  "dict_get (commitPatterns (analysis (request_with all_zero_counts))) ''timeOfDay'' (JObj []) =
     JObj [(''morning'', JInt 0), (''afternoon'', JInt 0), (''evening'', JInt 0),
           (''night'', JInt 0)] \<and>
   list_all (\<lambda>v. py_eq v (JInt 0))
     (map snd [(''morning'', JInt 0), (''afternoon'', JInt 0), (''evening'', JInt 0),
               (''night'', JInt 0)]) \<and>
   night_share_exceeds c_0_4 (analysis (request_with all_zero_counts)) = Inr False \<and>
   night_share_exceeds c_0_5 (analysis (request_with all_zero_counts)) = Inr False \<and>
   commit_pattern_roasts (request_with all_zero_counts) [] = Inr [] \<and>
   night_owl_factor (analysis (request_with all_zero_counts)) (0, []) = Inr (0, [])"
proof -
  have h1: "dict_get (commitPatterns (analysis (request_with all_zero_counts))) ''timeOfDay''
      (JObj []) =
      JObj [(''morning'', JInt 0), (''afternoon'', JInt 0), (''evening'', JInt 0),
            (''night'', JInt 0)]"
    by (simp add: request_with_def all_zero_counts_def empty_analysis_def dict_get_def)
  have h2: "\<forall>v \<in> set (map snd [(''morning'', JInt 0), (''afternoon'', JInt 0),
      (''evening'', JInt 0), (''night'', JInt 0)]). py_eq v (JInt 0)"
    by (simp add: fin_eq_def)
  have h3: "list_all (\<lambda>v. py_eq v (JInt 0))
      (map snd [(''morning'', JInt 0), (''afternoon'', JInt 0), (''evening'', JInt 0),
                (''night'', JInt 0)])"
    by (simp add: fin_eq_def)
  show ?thesis
    using night_owl_silent_on_zero_counts [OF h1 h2, of "[]" "(0, [])"] h1 h3 by blast
qed

section \<open>Scenario A\<close>






section \<open>The two emoji rules\<close>

lemma emoji_roasts_of:
  "emoji_roasts request acc =
     (case py_gt (dict_get (emojiUsage (analysis request)) ''count'' (JInt 0)) (JInt 10) of
        Inl ex \<Rightarrow> Inl ex
      | Inr True \<Rightarrow> Inr (acc @ [emoji_overuse_roast])
      | Inr False \<Rightarrow>
          Inr (if py_eq (dict_get (emojiUsage (analysis request)) ''count'' (JInt 0)) (JInt 0)
               then acc @ [emoji_drought_roast] else acc))"
  by (simp add: emoji_roasts_def Let_def split: sum.splits bool.splits)

text \<open>
  Claim C6. In \<^verbatim>\<open>generate_fallback_roasts\<close> the emoji block appends the overuse roast
  exactly when \<^verbatim>\<open>count > 10\<close> is true, the drought roast exactly when it is false and
  \<^verbatim>\<open>count == 0\<close>, and nothing exactly when both are false; a returned result contains the
  overuse roast, or the drought roast, under the same conditions, and never both. In
  \<^verbatim>\<open>analyze_roast_potential\<close> the same holds with the threshold 15, the weights 15 and
  10 and the tags \<^verbatim>\<open>emoji_overuse\<close> and \<^verbatim>\<open>emoji_drought\<close>.
\<close>

theorem emoji_rules_exclusive:
  "(emoji_roasts request acc = Inr (acc @ [emoji_overuse_roast]) \<longleftrightarrow>
      py_gt (dict_get (emojiUsage (analysis request)) ''count'' (JInt 0)) (JInt 10) = Inr True) \<and>
   (emoji_roasts request acc = Inr (acc @ [emoji_drought_roast]) \<longleftrightarrow>
      py_gt (dict_get (emojiUsage (analysis request)) ''count'' (JInt 0)) (JInt 10) = Inr False \<and>
      py_eq (dict_get (emojiUsage (analysis request)) ''count'' (JInt 0)) (JInt 0)) \<and>
   (emoji_roasts request acc = Inr acc \<longleftrightarrow>
      py_gt (dict_get (emojiUsage (analysis request)) ''count'' (JInt 0)) (JInt 10) = Inr False \<and>
      \<not> py_eq (dict_get (emojiUsage (analysis request)) ''count'' (JInt 0)) (JInt 0)) \<and>
   (\<forall>result. generate_fallback_roasts rt request = Inr result \<longrightarrow>
      (emoji_overuse_roast \<in> set result \<longleftrightarrow>
         py_gt (dict_get (emojiUsage (analysis request)) ''count'' (JInt 0)) (JInt 10) =
           Inr True) \<and>
      (emoji_drought_roast \<in> set result \<longleftrightarrow>
         py_gt (dict_get (emojiUsage (analysis request)) ''count'' (JInt 0)) (JInt 10) =
           Inr False \<and>
         py_eq (dict_get (emojiUsage (analysis request)) ''count'' (JInt 0)) (JInt 0)) \<and>
      \<not> (emoji_overuse_roast \<in> set result \<and> emoji_drought_roast \<in> set result)) \<and>
   (emoji_factor (analysis request) t = Inr (add_factor 15 ''emoji_overuse'' t) \<longleftrightarrow>
      py_gt (dict_get (emojiUsage (analysis request)) ''count'' (JInt 0)) (JInt 15) = Inr True) \<and>
   (emoji_factor (analysis request) t = Inr (add_factor 10 ''emoji_drought'' t) \<longleftrightarrow>
      py_gt (dict_get (emojiUsage (analysis request)) ''count'' (JInt 0)) (JInt 15) = Inr False \<and>
      py_eq (dict_get (emojiUsage (analysis request)) ''count'' (JInt 0)) (JInt 0)) \<and>
   (emoji_factor (analysis request) t = Inr t \<longleftrightarrow>
      py_gt (dict_get (emojiUsage (analysis request)) ''count'' (JInt 0)) (JInt 15) = Inr False \<and>
      \<not> py_eq (dict_get (emojiUsage (analysis request)) ''count'' (JInt 0)) (JInt 0)) \<and>
   (\<forall>res. analyze_roast_potential request = Inr res \<longrightarrow>
      (''emoji_overuse'' \<in> set (roast_factors res) \<longleftrightarrow>
         py_gt (dict_get (emojiUsage (analysis request)) ''count'' (JInt 0)) (JInt 15) =
           Inr True) \<and>
      (''emoji_drought'' \<in> set (roast_factors res) \<longleftrightarrow>
         py_gt (dict_get (emojiUsage (analysis request)) ''count'' (JInt 0)) (JInt 15) =
           Inr False \<and>
         py_eq (dict_get (emojiUsage (analysis request)) ''count'' (JInt 0)) (JInt 0)) \<and>
      \<not> (''emoji_overuse'' \<in> set (roast_factors res) \<and>
         ''emoji_drought'' \<in> set (roast_factors res)))"
proof -
  define cnt where "cnt = dict_get (emojiUsage (analysis request)) ''count'' (JInt 0)"
  have block:
    "(emoji_roasts request acc = Inr (acc @ [emoji_overuse_roast]) \<longleftrightarrow>
        py_gt cnt (JInt 10) = Inr True) \<and>
     (emoji_roasts request acc = Inr (acc @ [emoji_drought_roast]) \<longleftrightarrow>
        py_gt cnt (JInt 10) = Inr False \<and> py_eq cnt (JInt 0)) \<and>
     (emoji_roasts request acc = Inr acc \<longleftrightarrow>
        py_gt cnt (JInt 10) = Inr False \<and> \<not> py_eq cnt (JInt 0))"
    unfolding emoji_roasts_of cnt_def [symmetric]
    using emoji_overuse_roast_distinct(4)
    by (cases "py_gt cnt (JInt 10)") (auto split: bool.splits)
  have step:
    "(emoji_factor (analysis request) t = Inr (add_factor 15 ''emoji_overuse'' t) \<longleftrightarrow>
        py_gt cnt (JInt 15) = Inr True) \<and>
     (emoji_factor (analysis request) t = Inr (add_factor 10 ''emoji_drought'' t) \<longleftrightarrow>
        py_gt cnt (JInt 15) = Inr False \<and> py_eq cnt (JInt 0)) \<and>
     (emoji_factor (analysis request) t = Inr t \<longleftrightarrow>
        py_gt cnt (JInt 15) = Inr False \<and> \<not> py_eq cnt (JInt 0))"
    unfolding emoji_factor_def cnt_def [symmetric]
    by (cases "py_gt cnt (JInt 15)")
      (auto simp: add_factor_def prod_eq_iff split: bool.splits)
  have whole:
    "(emoji_overuse_roast \<in> set result \<longleftrightarrow> py_gt cnt (JInt 10) = Inr True) \<and>
     (emoji_drought_roast \<in> set result \<longleftrightarrow>
        py_gt cnt (JInt 10) = Inr False \<and> py_eq cnt (JInt 0)) \<and>
     \<not> (emoji_overuse_roast \<in> set result \<and> emoji_drought_roast \<in> set result)"
    if ret: "generate_fallback_roasts rt request = Inr result" for result
  proof -
    from ret obtain rules where
      rules: "rule_roasts rt request = Inr rules" and
      result: "result = generic_roasts rules"
      by (auto simp: generate_fallback_roasts_eq)
    from rule_roasts_parts [OF rules] obtain p1 p2 p3 p4 p5 where
      parts: "rules = p1 @ p2 @ p3 @ p4 @ p5" and
      p1: "p1 = [] \<or> p1 = [new_account_roast (login (user request))] \<or>
           (\<exists>years. p1 = [veteran_roast years])" and
      p2: "p2 = [] \<or> p2 = [night_owl_roast]" and
      e3: "emoji_roasts request [] = Inr p3" and
      p4: "p4 = [] \<or> (\<exists>n. p4 = [abandoned_repos_roast n])" and
      p5: "p5 = [] \<or> p5 = [follow_ratio_roast]"
      by blast
    have o: "emoji_overuse_roast \<in> set result \<longleftrightarrow> emoji_overuse_roast \<in> set p3"
      using p1 p2 p4 p5
      by (auto simp: result parts generic_roasts_def emoji_overuse_roast_distinct)
    have d: "emoji_drought_roast \<in> set result \<longleftrightarrow> emoji_drought_roast \<in> set p3"
      using p1 p2 p4 p5
      by (auto simp: result parts generic_roasts_def emoji_drought_roast_distinct)
    from emoji_roasts_cases [OF e3] have
      "p3 = [emoji_overuse_roast] \<and> py_gt cnt (JInt 10) = Inr True \<or>
       p3 = [emoji_drought_roast] \<and> py_gt cnt (JInt 10) = Inr False \<and> py_eq cnt (JInt 0) \<or>
       p3 = [] \<and> py_gt cnt (JInt 10) = Inr False \<and> \<not> py_eq cnt (JInt 0)"
      by (simp add: cnt_def)
    then show ?thesis
      unfolding o d using emoji_overuse_roast_distinct(4) by auto
  qed
  have scorer:
    "(''emoji_overuse'' \<in> set (roast_factors res) \<longleftrightarrow> py_gt cnt (JInt 15) = Inr True) \<and>
     (''emoji_drought'' \<in> set (roast_factors res) \<longleftrightarrow>
        py_gt cnt (JInt 15) = Inr False \<and> py_eq cnt (JInt 0)) \<and>
     \<not> (''emoji_overuse'' \<in> set (roast_factors res) \<and>
        ''emoji_drought'' \<in> set (roast_factors res))"
    if ret: "analyze_roast_potential request = Inr res" for res
  proof -
    from analyze_roast_potential_eq [OF ret] obtain tl where
      tl: "roast_tally (analysis request) = Inr tl" and res: "roast_factors res = snd tl"
      by blast
    from roast_tally_parts [OF tl] obtain p1 p2 p3 p4 p5 p6 where
      s: "snd tl = p1 @ p2 @ p3 @ p4 @ p5 @ p6" and
      p1: "p1 = [] \<or> p1 = [''questionable_commits'']" and
      p2: "p2 = [''emoji_overuse''] \<and> py_gt cnt (JInt 15) = Inr True \<or>
           p2 = [''emoji_drought''] \<and> py_gt cnt (JInt 15) = Inr False \<and> py_eq cnt (JInt 0) \<or>
           p2 = [] \<and> py_gt cnt (JInt 15) = Inr False \<and> \<not> py_eq cnt (JInt 0)" and
      p3: "p3 = [] \<or> p3 = [''repo_abandonment'']" and
      p4: "p4 = [] \<or> p4 = [''social_awkwardness'']" and
      p5: "p5 = [] \<or> p5 = [''night_owl_coding'']" and
      p6: "p6 = [] \<or> p6 = [''lazy_commit_messages'']"
      unfolding cnt_def by blast
    have o: "''emoji_overuse'' \<in> set (roast_factors res) \<longleftrightarrow> ''emoji_overuse'' \<in> set p2"
      using p1 p3 p4 p5 p6 by (auto simp: res s)
    have d: "''emoji_drought'' \<in> set (roast_factors res) \<longleftrightarrow> ''emoji_drought'' \<in> set p2"
      using p1 p3 p4 p5 p6 by (auto simp: res s)
    show ?thesis unfolding o d using p2 by auto
  qed
  show ?thesis
    unfolding cnt_def [symmetric] using block step whole scorer by blast
qed

lemma many_emojis_fallback:
  "generate_fallback_roasts plain_runtime (request_with many_emojis) =
     Inr [new_account_roast ''testuser'', emoji_overuse_roast, follow_ratio_roast]"
  by code_simp

theorem emoji_rules_exclusive_witness:
  "generate_fallback_roasts plain_runtime (request_with many_emojis) =
     Inr [new_account_roast ''testuser'', emoji_overuse_roast, follow_ratio_roast] \<and>
   py_gt (dict_get (emojiUsage (analysis (request_with many_emojis))) ''count'' (JInt 0))
     (JInt 10) = Inr True \<and>
   emoji_overuse_roast \<in>
     set [new_account_roast ''testuser'', emoji_overuse_roast, follow_ratio_roast] \<and>
   emoji_drought_roast \<notin>
     set [new_account_roast ''testuser'', emoji_overuse_roast, follow_ratio_roast]"
  using emoji_rules_exclusive [of "request_with many_emojis" "[]" plain_runtime "(0, [])"]
    many_emojis_fallback by auto

section \<open>The default of a missing follow ratio\<close>

text \<open>
  Claim C9. When \<^verbatim>\<open>userStats\<close> has no key \<^verbatim>\<open>followRatio\<close>,
  \<^verbatim>\<open>generate_fallback_roasts\<close> reads 0, the follow-ratio block appends its roast
  (0 < 0.5) and every returned result contains it; \<^verbatim>\<open>analyze_roast_potential\<close> reads 1,
  its social step leaves the tally as it is (1 is not below 0.3) and no returned result
  has the factor \<^verbatim>\<open>social_awkwardness\<close>.
\<close>

theorem follow_ratio_defaults_differ:
  assumes "map_of (userStats (analysis request)) ''followRatio'' = None"
  shows "dict_get (userStats (analysis request)) ''followRatio'' (JInt 0) = JInt 0 \<and>
         follow_ratio_roasts request acc = Inr (acc @ [follow_ratio_roast]) \<and>
         dict_get (userStats (analysis request)) ''followRatio'' (JInt 1) = JInt 1 \<and>
         social_factor (analysis request) t = Inr t \<and>
         (\<forall>result. generate_fallback_roasts rt request = Inr result \<longrightarrow>
            follow_ratio_roast \<in> set result) \<and>
         (\<forall>res. analyze_roast_potential request = Inr res \<longrightarrow>
            ''social_awkwardness'' \<notin> set (roast_factors res))"
proof (intro conjI allI impI)
  show d0: "dict_get (userStats (analysis request)) ''followRatio'' (JInt 0) = JInt 0"
    by (simp add: dict_get_def assms)
  show d1: "dict_get (userStats (analysis request)) ''followRatio'' (JInt 1) = JInt 1"
    by (simp add: dict_get_def assms)
  show f: "follow_ratio_roasts request acc = Inr (acc @ [follow_ratio_roast])" for acc
    by (simp add: follow_ratio_roasts_def d0 py_lt_float c_0_5_def fin_less_def)
  have lt: "py_lt (JInt 1) (JFloat c_0_3) = Inr False"
    by (simp add: py_lt_float c_0_3_def fin_less_def)
  show "social_factor (analysis request) t = Inr t"
    by (simp add: social_factor_def d1 lt)
  show "follow_ratio_roast \<in> set result"
    if ret: "generate_fallback_roasts rt request = Inr result" for result
  proof -
    from ret obtain rules where
      rules: "rule_roasts rt request = Inr rules" and
      result: "result = generic_roasts rules"
      by (auto simp: generate_fallback_roasts_eq)
    from rule_roasts_parts [OF rules] obtain p1 p2 p3 p4 p5 where
      parts: "rules = p1 @ p2 @ p3 @ p4 @ p5" and
      p5: "follow_ratio_roasts request [] = Inr p5"
      by blast
    have "p5 = [follow_ratio_roast]" using p5 f [of "[]"] by simp
    then show ?thesis by (simp add: result parts generic_roasts_def)
  qed
  show "''social_awkwardness'' \<notin> set (roast_factors res)"
    if ret: "analyze_roast_potential request = Inr res" for res
  proof -
    from analyze_roast_potential_eq [OF ret] obtain tl where
      tl: "roast_tally (analysis request) = Inr tl" and res: "roast_factors res = snd tl"
      by blast
    from roast_tally_parts [OF tl] obtain p1 p2 p3 p4 p5 p6 where
      s: "snd tl = p1 @ p2 @ p3 @ p4 @ p5 @ p6" and
      p1: "p1 = [] \<or> p1 = [''questionable_commits'']" and
      p2: "p2 = [] \<or> p2 = [''emoji_overuse''] \<or> p2 = [''emoji_drought'']" and
      p3: "p3 = [] \<or> p3 = [''repo_abandonment'']" and
      p4: "p4 = [] \<and>
             py_lt (dict_get (userStats (analysis request)) ''followRatio'' (JInt 1))
               (JFloat c_0_3) = Inr False \<or>
           p4 = [''social_awkwardness''] \<and>
             py_lt (dict_get (userStats (analysis request)) ''followRatio'' (JInt 1))
               (JFloat c_0_3) = Inr True" and
      p5: "p5 = [] \<or> p5 = [''night_owl_coding'']" and
      p6: "p6 = [] \<or> p6 = [''lazy_commit_messages'']"
      by blast
    have "p4 = []" using p4 by (auto simp: d1 lt)
    then show ?thesis using p1 p2 p3 p5 p6 by (auto simp: res s)
  qed
qed

lemma no_follow_ratio_fallback:
  "generate_fallback_roasts plain_runtime (request_with no_follow_ratio) =
     Inr [night_owl_roast, abandoned_repos_roast ''1'', follow_ratio_roast]"
  by code_simp


theorem follow_ratio_defaults_differ_witness:
  "map_of (userStats (analysis (request_with no_follow_ratio))) ''followRatio'' = None \<and>
   generate_fallback_roasts plain_runtime (request_with no_follow_ratio) =
     Inr [night_owl_roast, abandoned_repos_roast ''1'', follow_ratio_roast] \<and>
   follow_ratio_roast \<in> set [night_owl_roast, abandoned_repos_roast ''1'', follow_ratio_roast] \<and>
   social_factor (analysis (request_with no_follow_ratio)) (0, []) = Inr (0, [])"
proof -
  have h: "map_of (userStats (analysis (request_with no_follow_ratio))) ''followRatio'' = None"
    by (simp add: request_with_def no_follow_ratio_def scenario_a_def)
  show ?thesis
    using follow_ratio_defaults_differ [OF h, of "[]" "(0, [])" plain_runtime]
      h no_follow_ratio_fallback by auto
qed

section \<open>The missing credential\<close>

lemma py_gt_raises:
  "py_gt v w = Inl ex \<Longrightarrow> ex = TypeError"
  "py_gt_list xs ys = Inl ex \<Longrightarrow> ex = TypeError"
  by (induction v w and xs ys rule: py_gt_py_gt_list.induct)
    (auto split: json.splits option.splits list.splits if_splits)

lemma py_lt_raises: "py_lt v w = Inl ex \<Longrightarrow> ex = TypeError"
  by (simp add: py_lt_def py_gt_raises)

lemma int_to_float_raises: "int_to_float n = Inl ex \<Longrightarrow> ex = OverflowError"
  by (auto simp: int_to_float_def Let_def split: if_splits)

lemma py_add_raises: "py_add v w = Inl ex \<Longrightarrow> ex = TypeError \<or> ex = OverflowError"
  by (auto simp: py_add_def split: option.splits json.splits sum.splits
      dest: int_to_float_raises)

lemma py_sum_from_raises:
  "py_sum_from acc vs = Inl ex \<Longrightarrow> ex = TypeError \<or> ex = OverflowError"
  by (induction vs arbitrary: acc) (auto split: sum.splits dest: py_add_raises)

lemma py_mul_float_raises:
  "py_mul_float v c = Inl ex \<Longrightarrow> ex = TypeError \<or> ex = OverflowError"
  by (auto simp: py_mul_float_def split: option.splits json.splits sum.splits
      dest: int_to_float_raises)

lemma py_floordiv_raises: "py_floordiv rt v d = Inl ex \<Longrightarrow> ex = TypeError"
  by (auto simp: py_floordiv_def split: option.splits json.splits)

lemma py_floordiv_numeric: "py_floordiv rt v d = Inr q \<Longrightarrow> numeric q"
  by (auto simp: py_floordiv_def numeric_def split: option.splits json.splits)

lemma py_gt_int_numeric: "py_gt v (JInt n) = Inr b \<Longrightarrow> numeric v"
  by (auto simp: py_gt_int numeric_def split: option.splits)

lemma night_share_exceeds_raises:
  "night_share_exceeds c a = Inl ex \<Longrightarrow>
     ex = TypeError \<or> ex = AttributeError \<or> ex = OverflowError"
  unfolding night_share_exceeds_def Let_def py_sum_def
  by (auto split: json.splits sum.splits
      dest: py_sum_from_raises py_mul_float_raises py_gt_raises)

text \<open>What \<^verbatim>\<open>generate_fallback_roasts\<close> raises is never the HTTP failure.\<close>

lemma generate_fallback_roasts_raises:
  assumes "generate_fallback_roasts rt request = Inl ex"
  shows "ex = TypeError \<or> ex = AttributeError \<or> ex = OverflowError \<or> ex = ValueError"
proof -
  have b1: "account_age_roasts rt request acc = Inl e \<Longrightarrow> e = TypeError \<or> e = ValueError"
    for acc e
    unfolding account_age_roasts_def Let_def
    by (auto split: sum.splits bool.splits
        dest: py_lt_raises py_gt_raises py_floordiv_raises
          py_str_raises [OF py_floordiv_numeric])
  have b2: "commit_pattern_roasts request acc = Inl e \<Longrightarrow>
      e = TypeError \<or> e = AttributeError \<or> e = OverflowError" for acc e
    unfolding commit_pattern_roasts_def
    by (auto split: sum.splits dest: night_share_exceeds_raises)
  have b3: "emoji_roasts request acc = Inl e \<Longrightarrow> e = TypeError" for acc e
    unfolding emoji_roasts_def Let_def
    by (auto split: sum.splits bool.splits dest: py_gt_raises)
  have b4: "repository_roasts rt request acc = Inl e \<Longrightarrow> e = TypeError \<or> e = ValueError"
    for acc e
    unfolding repository_roasts_def Let_def
    by (auto split: sum.splits bool.splits
        dest: py_gt_raises py_str_raises [OF py_gt_int_numeric])
  have b5: "follow_ratio_roasts request acc = Inl e \<Longrightarrow> e = TypeError" for acc e
    unfolding follow_ratio_roasts_def Let_def
    by (auto split: sum.splits dest: py_lt_raises)
  from assms have "rule_roasts rt request = Inl ex"
    by (auto simp: generate_fallback_roasts_def split: sum.splits)
  then show ?thesis
    unfolding rule_roasts_def
    by (auto split: sum.splits dest: b1 b2 b3 b4 b5)
qed

lemma empty_analysis_fallback:
  "generate_fallback_roasts plain_runtime (request_with empty_analysis) =
     Inr [new_account_roast ''testuser'', emoji_drought_roast, follow_ratio_roast]"
  by code_simp

text \<open>
  Claim C1 against the code. With \<^verbatim>\<open>GEMINI_API_KEY\<close> unset or empty, the endpoint raises
  \<^verbatim>\<open>HTTPException(500)\<close> inside its own \<^verbatim>\<open>try\<close> block; the \<^verbatim>\<open>except Exception\<close>
  of that block takes it and runs the fallback generator, so that for every request and
  every behaviour of the generative service the outcome is that of
  \<^verbatim>\<open>generate_fallback_roasts\<close>: the reply with source \<^verbatim>\<open>fallback\<close>, and never the
  failure with the descriptive message. For the user of the test payload with empty
  analysis mappings the caller receives three fallback roasts.
\<close>

theorem missing_credential_gives_fallback:
  "generate_roasts_try rt None generate_content request =
     Inl (HTTPException 500 missing_key_detail) \<and>
   generate_roasts_try rt (Some []) generate_content request =
     Inl (HTTPException 500 missing_key_detail) \<and>
   generate_roasts rt None generate_content request =
     (case generate_fallback_roasts rt request of
        Inl ex \<Rightarrow> Inl ex
      | Inr fallback_roasts \<Rightarrow> Inr (fallback_response fallback_roasts)) \<and>
   generate_roasts rt (Some []) generate_content request =
     generate_roasts rt None generate_content request \<and>
   generate_roasts rt None generate_content request \<noteq> Inl (HTTPException code detail) \<and>
   source (fallback_response fallback_roasts) = ''fallback'' \<and>
   generate_roasts plain_runtime None failing_service (request_with empty_analysis) =
     Inr (fallback_response
            [new_account_roast ''testuser'', emoji_drought_roast, follow_ratio_roast])"
proof -
  have t: "generate_roasts_try rt None generate_content request =
      Inl (HTTPException 500 missing_key_detail)"
    and t': "generate_roasts_try rt (Some []) generate_content request =
      Inl (HTTPException 500 missing_key_detail)"
    by (simp_all add: generate_roasts_try_def)
  have g: "generate_roasts rt None generate_content request =
      (case generate_fallback_roasts rt request of
         Inl ex \<Rightarrow> Inl ex
       | Inr fallback_roasts \<Rightarrow> Inr (fallback_response fallback_roasts))"
    for rt generate_content request
    by (simp add: generate_roasts_def generate_roasts_try_def)
  have g': "generate_roasts rt (Some []) generate_content request =
      generate_roasts rt None generate_content request"
    by (simp add: generate_roasts_def generate_roasts_try_def)
  have n: "generate_roasts rt None generate_content request \<noteq>
      Inl (HTTPException code detail)"
    unfolding g using generate_fallback_roasts_raises [of rt request]
    by (auto split: sum.splits)
  have s: "source (fallback_response fallback_roasts) = ''fallback''"
    by (simp add: fallback_response_def)
  have c: "generate_roasts plain_runtime None failing_service (request_with empty_analysis) =
      Inr (fallback_response
             [new_account_roast ''testuser'', emoji_drought_roast, follow_ratio_roast])"
    by (simp add: g empty_analysis_fallback)
  from t t' g g' n s c show ?thesis by blast
qed

section \<open>When the prompt is built\<close>

lemma max_by_value_numeric:
  "numeric (snd best) \<Longrightarrow> list_all numeric (map snd rest) \<Longrightarrow>
     \<exists>k. max_by_value best rest = Inr k"
proof (induction rest arbitrary: best)
  case Nil
  then show ?case by simp
next
  case (Cons kv rest)
  then obtain b where b: "py_gt (snd kv) (snd best) = Inr b"
    using numeric_py_gt [of "snd kv" "snd best"] by auto
  have "numeric (snd (if b then kv else best))" using Cons.prems by simp
  then obtain k where "max_by_value (if b then kv else best) rest = Inr k"
    using Cons.IH Cons.prems by fastforce
  then show ?case by (simp add: b)
qed

lemma most_active_time_of_numeric:
  "numeric_mapping v \<Longrightarrow> \<exists>k. most_active_time_of v = Inr k"
proof (cases v)
  case (JObj kvs)
  assume "numeric_mapping v"
  with JObj show ?thesis
    using max_by_value_numeric [of "hd kvs" "tl kvs"]
    by (cases kvs) (auto simp: most_active_time_of_def numeric_mapping_def)
qed (simp_all add: numeric_mapping_def)

lemma emoji_fields_entries:
  "list_all emoji_entry es \<Longrightarrow> \<exists>vs. emoji_fields es = Inr vs \<and> list_all is_str vs"
proof (induction es)
  case Nil
  then show ?case by simp
next
  case (Cons e es)
  then obtain vs where "emoji_fields es = Inr vs" "list_all is_str vs" by auto
  moreover from Cons.prems obtain kvs where
    "e = JObj kvs" "is_str (dict_get kvs ''emoji'' (JStr []))"
    by (cases e) (auto simp: emoji_entry_def)
  ultimately show ?case by simp
qed

lemma str_items_strs: "list_all is_str vs \<Longrightarrow> \<exists>ss. str_items vs = Inr ss"
proof (induction vs)
  case Nil
  then show ?case by simp
next
  case (Cons v vs)
  then obtain ss where "str_items vs = Inr ss" by auto
  moreover from Cons.prems obtain s where "v = JStr s"
    by (cases v) (auto simp: is_str_def)
  ultimately show ?case by simp
qed

lemma list_all_take: "list_all P xs \<Longrightarrow> list_all P (take n xs)"
  by (auto simp: list_all_iff dest: in_set_takeD)

lemma top_emojis_line_entries: "emoji_list v \<Longrightarrow> \<exists>s. top_emojis_line v = Inr s"
proof (cases v)
  case (JList xs)
  assume "emoji_list v"
  then have "list_all emoji_entry (take 3 xs)"
    using JList by (simp add: emoji_list_def list_all_take)
  then obtain vs where vs: "emoji_fields (take 3 xs) = Inr vs" "list_all is_str vs"
    using emoji_fields_entries by blast
  then obtain ss where "str_items vs = Inr ss" using str_items_strs by blast
  then show ?thesis
    by (simp add: JList top_emojis_line_def py_slice_def py_items_def vs(1))
qed (simp_all add: emoji_list_def)

lemma naming_patterns_line_strs: "str_list v \<Longrightarrow> \<exists>s. naming_patterns_line v = Inr s"
proof (cases v)
  case (JList xs)
  assume "str_list v"
  then have "list_all is_str (take 3 xs)"
    using JList by (simp add: str_list_def list_all_take)
  then obtain ss where "str_items (take 3 xs) = Inr ss" using str_items_strs by blast
  then show ?thesis
    by (simp add: JList naming_patterns_line_def py_slice_def py_items_def)
qed (simp_all add: str_list_def)

lemma format_1f_small_number: "small_number v \<Longrightarrow> \<exists>s. format_1f v = Inr s"
proof (cases v)
  case (JBool b)
  have "\<exists>f. int_to_float (if b then 1 else 0) = Inr f"
    by (intro int_to_float_small) simp
  then show ?thesis by (auto simp: JBool format_1f_def)
next
  case (JInt n)
  assume "small_number v"
  then have "\<exists>f. int_to_float n = Inr f"
    using JInt by (intro int_to_float_small) (simp add: small_number_def)
  then show ?thesis by (auto simp: JInt format_1f_def)
qed (simp_all add: small_number_def format_1f_def)

lemma message_lines_printable:
  "list_all printable msgs \<Longrightarrow> \<exists>ls. message_lines rt msgs = Inr ls"
proof (induction msgs)
  case Nil
  then show ?case by simp
next
  case (Cons msg msgs)
  then obtain ls where "message_lines rt msgs = Inr ls" by auto
  moreover obtain m where "py_str rt msg = Inr m"
    using Cons.prems py_str_printable [of msg rt] by auto
  ultimately show ?case by simp
qed

lemma questionable_lines_list:
  assumes "printable_list v"
  shows "\<exists>q. py_slice 5 v = Inr q \<and> (\<exists>s. questionable_lines rt q = Inr s)"
proof (cases v)
  case (JList xs)
  have "list_all printable (take 3 (take 5 xs))"
    using assms JList by (simp add: printable_list_def list_all_take)
  then obtain ls where "message_lines rt (take 3 (take 5 xs)) = Inr ls"
    using message_lines_printable by blast
  then show ?thesis
    by (simp add: JList py_slice_def questionable_lines_def py_items_def)
qed (use assms in \<open>simp_all add: printable_list_def\<close>)

text \<open>
  Claim C7, as the code has it. \<^verbatim>\<open>create_roast_prompt\<close> is a function of its argument
  alone. It returns a string at least for every request in which: \<^verbatim>\<open>public_repos\<close>,
  \<^verbatim>\<open>followers\<close> and \<^verbatim>\<open>following\<close> are below \<open>2 ^ 1023\<close> in magnitude;
  \<^verbatim>\<open>accountAge\<close>, \<^verbatim>\<open>count\<close>, \<^verbatim>\<open>abandonedRepos\<close> and \<^verbatim>\<open>oneCommitWonders\<close> are
  absent or neither a list nor a mapping, and if an int below \<open>2 ^ 1023\<close> in magnitude;
  \<^verbatim>\<open>languages\<close> is absent or a mapping; \<^verbatim>\<open>timeOfDay\<close> is absent or a mapping of
  numbers; \<^verbatim>\<open>questionableMessages\<close> is absent or a list of such printable values;
  \<^verbatim>\<open>topEmojis\<close> is absent or a list of mappings whose \<^verbatim>\<open>emoji\<close> is absent or a
  string; \<^verbatim>\<open>namingPatterns\<close> is absent or a list of strings; \<^verbatim>\<open>repoToStarRatio\<close>
  and \<^verbatim>\<open>followRatio\<close> are absent or a float, a bool or an int below \<open>2 ^ 1023\<close> in
  magnitude. Every missing key is read as its default. It does not return for every
  value of the loosely typed mappings.
\<close>

theorem prompt_returns_on_typed_values:
  assumes "prompt_values_typed request"
  shows "\<exists>prompt. create_roast_prompt rt request = Inr prompt"
proof -
  let ?a = "analysis request"
  let ?u = "user request"
  from assms have
    u1: "\<bar>public_repos ?u\<bar> < 2 ^ 1023" and
    u2: "\<bar>followers ?u\<bar> < 2 ^ 1023" and
    u3: "\<bar>following ?u\<bar> < 2 ^ 1023" and
    s1: "printable (dict_get (userStats ?a) ''accountAge'' (JInt 0))" and
    s2: "printable (dict_get (emojiUsage ?a) ''count'' (JInt 0))" and
    s3: "printable (dict_get (repoAnalysis ?a) ''abandonedRepos'' (JInt 0))" and
    s4: "printable (dict_get (repoAnalysis ?a) ''oneCommitWonders'' (JInt 0))" and
    t1: "is_mapping (dict_get (repoAnalysis ?a) ''languages'' (JObj []))" and
    t2: "numeric_mapping (dict_get (commitPatterns ?a) ''timeOfDay'' (JObj []))" and
    t3: "printable_list (dict_get (commitLanguage ?a) ''questionableMessages'' (JList []))" and
    t4: "emoji_list (dict_get (emojiUsage ?a) ''topEmojis'' (JList []))" and
    t5: "str_list (dict_get (repoAnalysis ?a) ''namingPatterns'' (JList []))" and
    t6: "small_number (dict_get (userStats ?a) ''repoToStarRatio'' (JInt 0))" and
    t7: "small_number (dict_get (userStats ?a) ''followRatio'' (JInt 0))"
    by (simp_all add: prompt_values_typed_def Let_def)
  obtain ls where ls: "languages_of (dict_get (repoAnalysis ?a) ''languages'' (JObj [])) = Inr ls"
    using t1 by (cases "dict_get (repoAnalysis ?a) ''languages'' (JObj [])")
      (auto simp: is_mapping_def languages_of_def)
  obtain m where m: "most_active_time_of (dict_get (commitPatterns ?a) ''timeOfDay'' (JObj [])) =
      Inr m"
    using most_active_time_of_numeric [OF t2] by blast
  obtain q qs where
    q: "py_slice 5 (dict_get (commitLanguage ?a) ''questionableMessages'' (JList [])) = Inr q"
    and qs: "questionable_lines rt q = Inr qs"
    using questionable_lines_list [OF t3] by blast
  obtain p1 where p1: "py_str rt (dict_get (userStats ?a) ''accountAge'' (JInt 0)) = Inr p1"
    using py_str_printable [OF s1] by blast
  obtain p2 where p2: "py_str rt (dict_get (emojiUsage ?a) ''count'' (JInt 0)) = Inr p2"
    using py_str_printable [OF s2] by blast
  obtain p3 where p3: "py_str rt (dict_get (repoAnalysis ?a) ''abandonedRepos'' (JInt 0)) = Inr p3"
    using py_str_printable [OF s3] by blast
  obtain p4 where
    p4: "py_str rt (dict_get (repoAnalysis ?a) ''oneCommitWonders'' (JInt 0)) = Inr p4"
    using py_str_printable [OF s4] by blast
  obtain te where te: "top_emojis_line (dict_get (emojiUsage ?a) ''topEmojis'' (JList [])) = Inr te"
    using top_emojis_line_entries [OF t4] by blast
  obtain np where
    np: "naming_patterns_line (dict_get (repoAnalysis ?a) ''namingPatterns'' (JList [])) = Inr np"
    using naming_patterns_line_strs [OF t5] by blast
  obtain st where st: "format_1f (dict_get (userStats ?a) ''repoToStarRatio'' (JInt 0)) = Inr st"
    using format_1f_small_number [OF t6] by blast
  obtain fr where fr: "format_1f (dict_get (userStats ?a) ''followRatio'' (JInt 0)) = Inr fr"
    using format_1f_small_number [OF t7] by blast
  show ?thesis
    unfolding create_roast_prompt_def Let_def
    by (simp add: ls m q qs p1 p2 p3 p4 te np st fr int_text_small [OF u1]
        int_text_small [OF u2] int_text_small [OF u3])
qed

lemma test_analysis_prompt_typed: "prompt_values_typed (request_with test_analysis)"
  by code_simp

theorem prompt_returns_on_typed_values_witness:
  "prompt_values_typed (request_with test_analysis) \<and>
   (\<exists>prompt. create_roast_prompt plain_runtime (request_with test_analysis) = Inr prompt)"
  using prompt_returns_on_typed_values [of "request_with test_analysis" plain_runtime]
    test_analysis_prompt_typed by blast

text \<open>
  The claim as stated, "for any values of the loosely typed mappings it returns a string
  without raising", fails on a request whose \<^verbatim>\<open>repoToStarRatio\<close> is \<^verbatim>\<open>null\<close>: the
  format \<^verbatim>\<open>.1f\<close> raises TypeError.
\<close>

theorem prompt_raises_on_null_star_ratio:
  "create_roast_prompt plain_runtime (request_with null_star_ratio) = Inl TypeError"
  by code_simp

section \<open>The languages in the prompt\<close>

text \<open>
  Claim C8. When \<^verbatim>\<open>languages\<close> is a mapping, the prompt that \<^verbatim>\<open>create_roast_prompt\<close>
  returns has, on its line "Primary Languages", the first three keys of the mapping in
  insertion order, joined by a comma and a space (or "None detected" for the empty
  mapping): the counts are not read.
\<close>

theorem primary_languages_are_first_three_keys:
  assumes "map_of (repoAnalysis (analysis request)) ''languages'' = Some (JObj kvs)"
      and "create_roast_prompt rt request = Inr prompt"
  shows "languages_of (dict_get (repoAnalysis (analysis request)) ''languages'' (JObj [])) =
           Inr (take 3 (map fst kvs)) \<and>
         (\<exists>before after.
            prompt =
              before @ ''- Primary Languages: '' @
              (if take 3 (map fst kvs) \<noteq> [] then join '', '' (take 3 (map fst kvs))
               else ''None detected'') @
              nl @ ''- Most Active Time: '' @ after)"
proof -
  have d: "dict_get (repoAnalysis (analysis request)) ''languages'' (JObj []) = JObj kvs"
    by (simp add: dict_get_def assms(1))
  have l: "languages_of (JObj kvs) = Inr (take 3 (map fst kvs))"
    by (simp add: languages_of_def)
  from assms(2) obtain profile mat cc ec te rest where
    "prompt = profile @ coding_section (languages_line (take 3 (map fst kvs))) mat cc ec te @ rest"
    unfolding create_roast_prompt_def Let_def d l
    by (auto split: sum.splits)
  then have e: "prompt =
      (profile @ nl @ nl @ ''CODING PATTERNS:'' @ nl) @ ''- Primary Languages: '' @
      (if take 3 (map fst kvs) \<noteq> [] then join '', '' (take 3 (map fst kvs))
       else ''None detected'') @
      nl @ ''- Most Active Time: '' @
      (mat @ nl @ ''- Total Commits Analyzed: '' @ cc @ nl @ ''- Emoji Usage: '' @ ec @
       '' emojis found'' @ nl @ ''- Top Emojis: '' @ te @ rest)"
    by (simp add: coding_section_def languages_line_def)
  have "\<exists>before after.
      prompt =
        before @ ''- Primary Languages: '' @
        (if take 3 (map fst kvs) \<noteq> [] then join '', '' (take 3 (map fst kvs))
         else ''None detected'') @
        nl @ ''- Most Active Time: '' @ after"
    using e by - (intro exI, assumption)
  then show ?thesis by (simp add: d l)
qed

lemma skewed_languages_prompt:
  "\<exists>prompt. create_roast_prompt plain_runtime (request_with skewed_languages) = Inr prompt"
proof -
  have "\<not> isl (create_roast_prompt plain_runtime (request_with skewed_languages))"
    by code_simp
  then show ?thesis
    by (cases "create_roast_prompt plain_runtime (request_with skewed_languages)") simp_all
qed

theorem primary_languages_are_first_three_keys_witness:
  "map_of (repoAnalysis (analysis (request_with skewed_languages))) ''languages'' =
     Some (JObj [(''HTML'', JInt 1), (''CSS'', JInt 2), (''Shell'', JInt 1),
                 (''Python'', JInt 40), (''Rust'', JInt 7)]) \<and>
   three_highest_count_keys
     [(''HTML'', 1), (''CSS'', 2), (''Shell'', 1), (''Python'', 40), (''Rust'', 7)] =
     [''Python'', ''Rust'', ''CSS''] \<and>
   (\<exists>prompt before after.
      create_roast_prompt plain_runtime (request_with skewed_languages) = Inr prompt \<and>
      prompt = before @ ''- Primary Languages: HTML, CSS, Shell'' @ nl @
        ''- Most Active Time: '' @ after)"
proof -
  have h: "map_of (repoAnalysis (analysis (request_with skewed_languages))) ''languages'' =
      Some (JObj [(''HTML'', JInt 1), (''CSS'', JInt 2), (''Shell'', JInt 1),
                  (''Python'', JInt 40), (''Rust'', JInt 7)])"
    by (simp add: request_with_def skewed_languages_def empty_analysis_def)
  have t: "three_highest_count_keys
      [(''HTML'', 1), (''CSS'', 2), (''Shell'', 1), (''Python'', 40), (''Rust'', 7)] =
      [''Python'', ''Rust'', ''CSS'']"
    by code_simp
  obtain prompt where
    p: "create_roast_prompt plain_runtime (request_with skewed_languages) = Inr prompt"
    using skewed_languages_prompt by blast
  from primary_languages_are_first_three_keys [OF h p]
  have "\<exists>before after. prompt = before @ ''- Primary Languages: HTML, CSS, Shell'' @ nl @
      ''- Most Active Time: '' @ after"
    by simp
  with h t p show ?thesis by blast
qed

end
